theory Spec2Isabelle
  imports Main "HOL-Library.Word"
begin

section \<open>JavaScript strings\<close>

text \<open>
  A JavaScript string is a sequence of UTF-16 code units; \<open>substring\<close>, \<open>split\<close>,
  \<open>trim\<close> and the regular expression of the source all count and test code units.
  \<open>utf16\<close> embeds an ASCII literal; code units outside printable ASCII are written as
  numerals (\<open>0xE9\<close> is e-acute, \<open>0x0A\<close> the line feed of a template literal).
\<close>

type_synonym jschar = "16 word"
type_synonym jsstring = "jschar list"

definition utf16 :: "string \<Rightarrow> jsstring" where
  "utf16 = map of_char"

fun joinLines :: "jsstring list \<Rightarrow> jsstring" where
  "joinLines [] = []"
| "joinLines [l] = l"
| "joinLines (l # ls) = l @ [0x0A] @ joinLines ls"

definition isWhiteSpace :: "jschar \<Rightarrow> bool" where
  \<comment> \<open>WhiteSpace and LineTerminator of ECMAScript: what \<open>String.prototype.trim\<close> removes.\<close>
  "isWhiteSpace c =
     (c = 0x09 \<or> c = 0x0A \<or> c = 0x0B \<or> c = 0x0C \<or> c = 0x0D \<or> c = 0x20 \<or> c = 0xA0 \<or>
      c = 0x1680 \<or> (0x2000 \<le> c \<and> c \<le> 0x200A) \<or> c = 0x2028 \<or> c = 0x2029 \<or>
      c = 0x202F \<or> c = 0x205F \<or> c = 0x3000 \<or> c = 0xFEFF)"

definition trim :: "jsstring \<Rightarrow> jsstring" where
  "trim s = rev (dropWhile isWhiteSpace (rev (dropWhile isWhiteSpace s)))"

definition substring :: "jsstring \<Rightarrow> nat \<Rightarrow> nat \<Rightarrow> jsstring" where
  \<comment> \<open>\<open>s.substring(start, end)\<close>: both indices are clamped to the length and swapped
      when out of order.\<close>
  "substring s start end =
     (let len = length s;
          finalStart = min start len;
          finalEnd = min end len;
          from = min finalStart finalEnd;
          to = max finalStart finalEnd
      in take (to - from) (drop from s))"

fun split :: "jschar \<Rightarrow> jsstring \<Rightarrow> jsstring list" where
  \<comment> \<open>\<open>s.split(sep)\<close> for a separator of one code unit; the result is never empty.\<close>
  "split sep [] = [] # []"
| "split sep (c # cs) =
     (if c = sep then [] # split sep cs
      else (case split sep cs of [] \<Rightarrow> [c] # [] | p # ps \<Rightarrow> (c # p) # ps))"

definition index :: "'a list \<Rightarrow> nat \<Rightarrow> 'a option" where
  \<comment> \<open>\<open>xs[i]\<close>: \<open>undefined\<close> (here \<open>None\<close>) out of range.\<close>
  "index xs i = (if i < length xs then Some (xs ! i) else None)"

definition orElse :: "jsstring option \<Rightarrow> jsstring \<Rightarrow> jsstring" where
  \<comment> \<open>\<open>x || d\<close> on an optional string: \<open>undefined\<close> and \<open>""\<close> are falsy.\<close>
  "orElse x d = (case x of None \<Rightarrow> d | Some s \<Rightarrow> if s = [] then d else s)"

definition isAlnum :: "jschar \<Rightarrow> bool" where
  \<comment> \<open>The code units that \<open>/[^A-Z0-9]/gi\<close> does not match. The expression has the
      \<open>i\<close> flag and not the \<open>u\<close> flag, so a code unit is canonicalised by
      \<open>toUpperCase\<close> and a non-ASCII code unit is never identified with an ASCII one.\<close>
  "isAlnum c = ((0x41 \<le> c \<and> c \<le> 0x5A) \<or> (0x61 \<le> c \<and> c \<le> 0x7A) \<or> (0x30 \<le> c \<and> c \<le> 0x39))"

definition replace_nonAlnum :: "jsstring \<Rightarrow> jsstring" where
  \<comment> \<open>\<open>s.replace(/[^A-Z0-9]/gi, '')\<close>\<close>
  "replace_nonAlnum s = filter isAlnum s"

definition upperASCII :: "jschar \<Rightarrow> jschar" where
  "upperASCII c = (if 0x61 \<le> c \<and> c \<le> 0x7A then c - 0x20 else c)"

section \<open>JavaScript values and the host's built-ins\<close>

text \<open>
  The value \<open>JSON.parse\<close> returns. Numbers are IEEE doubles in the source; the model
  keeps their type abstract (\<open>'n\<close>) and takes from the host what the source needs of
  them. An object is its list of own properties.
\<close>

datatype 'n json =
    JNull
  | JBool bool
  | JNumber 'n
  | JString jsstring
  | JArray "'n json list"
  | JObject "(jsstring \<times> 'n json) list"

datatype error =
    Error jsstring
  | SyntaxError
  | TypeError

text \<open>
  The built-ins of the host that the source calls and that are not code of this
  repository: \<open>JSON.parse\<close> (\<open>None\<close> when it throws SyntaxError), the conversion of a
  number to a string, the test for the falsy numbers (zero and NaN), and the Unicode
  case mapping of \<open>toUpperCase\<close> on a string that is not pure ASCII.
\<close>

record 'n host =
  JSON_parse :: "jsstring \<Rightarrow> 'n json option"
  Number_toString :: "'n \<Rightarrow> jsstring"
  Number_falsy :: "'n \<Rightarrow> bool"
  toUpperCase_unicode :: "jsstring \<Rightarrow> jsstring"

definition parse :: "'n host \<Rightarrow> jsstring \<Rightarrow> error + 'n json" where
  "parse h s = (case JSON_parse h s of None \<Rightarrow> Inl SyntaxError | Some v \<Rightarrow> Inr v)"

definition toUpperCase :: "'n host \<Rightarrow> jsstring \<Rightarrow> jsstring" where
  "toUpperCase h s =
     (if list_all (\<lambda>c. c < 0x80) s then map upperASCII s else toUpperCase_unicode h s)"

fun truthy :: "'n host \<Rightarrow> 'n json option \<Rightarrow> bool" where
  \<comment> \<open>ToBoolean; \<open>None\<close> is \<open>undefined\<close>.\<close>
  "truthy h None = False"
| "truthy h (Some JNull) = False"
| "truthy h (Some (JBool b)) = b"
| "truthy h (Some (JNumber n)) = (\<not> Number_falsy h n)"
| "truthy h (Some (JString s)) = (s \<noteq> [])"
| "truthy h (Some (JArray xs)) = True"
| "truthy h (Some (JObject kvs)) = True"

definition orValue :: "'n host \<Rightarrow> 'n json option \<Rightarrow> 'n json \<Rightarrow> 'n json" where
  \<comment> \<open>\<open>x || d\<close>\<close>
  "orValue h x d = (case x of None \<Rightarrow> d | Some v \<Rightarrow> if truthy h x then v else d)"

definition property :: "'n json \<Rightarrow> jsstring \<Rightarrow> 'n json option" where
  \<comment> \<open>The own property of an object, \<open>None\<close> when it has none of that name.\<close>
  "property v name = (case v of JObject kvs \<Rightarrow> map_of kvs name | _ \<Rightarrow> None)"

definition getProp :: "'n json \<Rightarrow> jsstring \<Rightarrow> error + 'n json option" where
  \<comment> \<open>\<open>rawData.name\<close> for the seven names the source reads, none of which is a
      property of a prototype: reading from \<open>null\<close> throws TypeError, an object gives
      its own property, every other value gives \<open>undefined\<close>.\<close>
  "getProp v name =
     (case v of
        JNull \<Rightarrow> Inl TypeError
      | JObject kvs \<Rightarrow> Inr (map_of kvs name)
      | _ \<Rightarrow> Inr None)"

fun join :: "jsstring list \<Rightarrow> jsstring" where
  \<comment> \<open>\<open>Array.prototype.join\<close> with the default separator, a comma\<close>
  "join [] = []"
| "join [s] = s"
| "join (s # ss) = s @ [0x2C] @ join ss"

fun String :: "'n host \<Rightarrow> 'n json \<Rightarrow> error + jsstring"
  and elements :: "'n host \<Rightarrow> 'n json list \<Rightarrow> error + jsstring list" where
  \<comment> \<open>\<open>String(v)\<close>. An array is joined, \<open>null\<close> elements as empty strings. A parsed
      object has no callable \<open>toString\<close> of its own: with an own property of that name
      the conversion throws TypeError, without one \<open>Object.prototype.toString\<close> answers.\<close>
  "String h JNull = Inr (utf16 ''null'')"
| "String h (JBool b) = Inr (if b then utf16 ''true'' else utf16 ''false'')"
| "String h (JNumber n) = Inr (Number_toString h n)"
| "String h (JString s) = Inr s"
| "String h (JArray xs) =
     (case elements h xs of Inl e \<Rightarrow> Inl e | Inr ss \<Rightarrow> Inr (join ss))"
| "String h (JObject kvs) =
     (if map_of kvs (utf16 ''toString'') \<noteq> None then Inl TypeError
      else Inr (utf16 ''[object Object]''))"
| "elements h [] = Inr []"
| "elements h (x # xs) =
     (case (if x = JNull then Inr [] else String h x) of
        Inl e \<Rightarrow> Inl e
      | Inr s \<Rightarrow> (case elements h xs of Inl e \<Rightarrow> Inl e | Inr ss \<Rightarrow> Inr (s # ss)))"

section \<open>The oracle\<close>

datatype Type = STRING | INTEGER | OBJECT

datatype schema =
  Schema (type: Type) (enum: "jsstring list option") (description: "jsstring option")
    (properties: "(jsstring \<times> schema) list") (required: "jsstring list option")

definition typed :: "Type \<Rightarrow> schema" where
  \<comment> \<open>\<open>{ type: t }\<close>\<close>
  "typed t = Schema t None None [] None"

definition typed_enum :: "Type \<Rightarrow> jsstring list \<Rightarrow> schema" where
  \<comment> \<open>\<open>{ type: t, enum: es }\<close>\<close>
  "typed_enum t es = Schema t (Some es) None [] None"

definition typed_description :: "Type \<Rightarrow> jsstring \<Rightarrow> schema" where
  \<comment> \<open>\<open>{ type: t, description: d }\<close>\<close>
  "typed_description t d = Schema t None (Some d) [] None"

definition objectSchema :: "(jsstring \<times> schema) list \<Rightarrow> jsstring list \<Rightarrow> schema" where
  \<comment> \<open>\<open>{ type: Type.OBJECT, properties: ps, required: req }\<close>\<close>
  "objectSchema ps req = Schema OBJECT None None ps (Some req)"

datatype part =
    inlineData (mimeType: jsstring) (data: jsstring)
  | text_part jsstring

datatype contents = Text jsstring | Parts "part list"

record Content =
  role :: "jsstring option"
  parts :: "part list"

record config =
  systemInstruction :: jsstring
  responseMimeType :: "jsstring option"
  responseSchema :: "schema option"

datatype request =
    GenerateContent jsstring contents config
  | SendMessage jsstring config "Content list" jsstring

datatype response = Response (response_text: "jsstring option")

text \<open>
  What a call sees of the world: the API key of the process configuration and the
  oracle, which answers a request made with a key by a response or by a failure of
  the transport.
\<close>

record env =
  API_KEY :: "jsstring option"
  generate :: "jsstring \<Rightarrow> request \<Rightarrow> error + response"

datatype client = GoogleGenAI (apiKey: jsstring)

type_synonym 'a outcome = "(error + 'a) \<times> request list"

definition keyMissing :: jsstring where
  "keyMissing = utf16 ''Cl'' @ [0xE9] @ utf16 '' API Google Gemini manquante''"

definition getAIClient :: "env \<Rightarrow> error + client" where
  \<comment> \<open>\<open>!process.env.API_KEY\<close> holds of an unset key and of an empty one.\<close>
  "getAIClient env =
     (case API_KEY env of
        None \<Rightarrow> Inl (Error keyMissing)
      | Some k \<Rightarrow> if k = [] then Inl (Error keyMissing) else Inr (GoogleGenAI k))"

definition generateContent :: "env \<Rightarrow> client \<Rightarrow> request \<Rightarrow> error + response" where
  "generateContent env ai req = generate env (apiKey ai) req"

definition sendMessage :: "env \<Rightarrow> client \<Rightarrow> request \<Rightarrow> error + response" where
  "sendMessage env ai req = generate env (apiKey ai) req"

definition answers :: "env \<Rightarrow> request \<Rightarrow> jsstring option \<Rightarrow> bool" where
  \<comment> \<open>The key is configured and the oracle answers the request with a response of
      the given text (\<open>None\<close>: no text).\<close>
  "answers env req t =
     (case getAIClient env of
        Inl e \<Rightarrow> False
      | Inr ai \<Rightarrow> generate env (apiKey ai) req = Inr (Response t))"

section \<open>The six operations\<close>

text \<open>
  Each operation returns its result, or the error it throws, together with the list of
  the requests it has sent to the oracle.
\<close>

definition fuelTypes :: "jsstring list" where
  "fuelTypes = [utf16 ''Essence'', utf16 ''Diesel'', utf16 ''Hybride'', [0xC9] @ utf16 ''lectrique'', utf16 ''N/A'']"

subsection \<open>analyzeVehicleByVin\<close>

definition analyzeVehicleByVin_systemPrompt :: "jsstring \<Rightarrow> jsstring" where
  "analyzeVehicleByVin_systemPrompt vin =
     joinLines
     [utf16 ''Tu es KHABIR, expert automobile certifi'' @ [0xE9] @ utf16 '' au Maroc. '',
      utf16 ''       '' @ [0xC0] @ utf16 '' partir de ce num'' @ [0xE9] @ utf16 ''ro VIN : '' @
       vin @ utf16 '', effectue un d'' @ [0xE9] @ utf16 ''codage ISO 3779 rigoureux.'',
      utf16 ''       '',
      utf16 ''       R'' @ [0xC8] @ utf16 ''GLES D'IDENTIFICATION :'',
      utf16 ''       1. Examine le VDS (caract'' @ [0xE8] @ utf16 ''res 4 '' @ [0xE0] @
       utf16 '' 9). Pour le groupe VAG (Audi, VW, Seat), les positions 7 et 8 sont critiques pour le code mod'' @
       [0xE8] @ utf16 ''le (ex: 8X=A1, F5=A5, 5F=Leon, 51=Ateca).'',
      utf16 ''       2. Ne confonds pas les segments. Si les positions 7-8 indiquent '5F', le mod'' @
       [0xE8] @ utf16 ''le est 'LEON', pas 'ATECA'.'',
      utf16 ''       3. Croise avec le march'' @ [0xE9] @
       utf16 '' MAROCAIN (importateurs officiels comme CAC, Sopriam, Renault Commerce Maroc).'',
      utf16 ''       '',
      utf16 ''       CHAMPS REQUIS :'',
      utf16 ''       - brand : Constructeur.'',
      utf16 ''       - model : Mod'' @ [0xE8] @ utf16 ''le commercial exact au Maroc.'',
      utf16 ''       - deductionReasoning : Explique pr'' @ [0xE9] @ utf16 ''cis'' @ [0xE9] @
       utf16 ''ment quel code VDS (positions 4-9) ou VIS a permis d'identifier le mod'' @ [0xE8] @
       utf16 ''le (ex: '' @ [0x22] @ utf16 ''Identifi'' @ [0xE9] @ utf16 '' comme Audi A1 gr'' @
       [0xE2] @ utf16 ''ce au code VDS '8X' en positions 7-8'' @ [0x22] @ utf16 '').'',
      utf16 ''       - yearOfManufacture : Ann'' @ [0xE9] @ utf16 ''e code (Position 10).'',
      utf16 ''       - motorization : Motorisation standard au Maroc.'',
      utf16 ''       - fuelType : ['' @ [0x22] @ utf16 ''Essence'' @ [0x22] @ utf16 '', '' @
       [0x22] @ utf16 ''Diesel'' @ [0x22] @ utf16 '', '' @ [0x22] @ utf16 ''Hybride'' @ [0x22] @
       utf16 '', '' @ [0x22, 0xC9] @ utf16 ''lectrique'' @ [0x22] @ utf16 '', '' @ [0x22] @
       utf16 ''N/A'' @ [0x22] @ utf16 ''].'',
      utf16 ''       - color : Couleur probable.'',
      utf16 ''       '',
      utf16 ''       R'' @ [0xE9] @ utf16 ''ponds uniquement en JSON pur.'']"

definition analyzeVehicleByVin_request :: "jsstring \<Rightarrow> request" where
  "analyzeVehicleByVin_request vin =
     GenerateContent (utf16 ''gemini-3-flash-preview'')
       (Text (utf16 ''D'' @ [0xE9] @ utf16 ''coder pr'' @ [0xE9] @ utf16 ''cis'' @ [0xE9] @
                utf16 ''ment le VIN : '' @ vin @ utf16 '' selon ISO 3779. JSON.''))
       \<lparr>systemInstruction = analyzeVehicleByVin_systemPrompt vin,
        responseMimeType = Some (utf16 ''application/json''),
        responseSchema = Some (objectSchema
          [(utf16 ''brand'', typed STRING),
           (utf16 ''model'', typed STRING),
           (utf16 ''deductionReasoning'', typed STRING),
           (utf16 ''yearOfManufacture'', typed STRING),
           (utf16 ''motorization'', typed STRING),
           (utf16 ''fuelType'', typed_enum STRING fuelTypes),
           (utf16 ''color'', typed STRING)]
          [utf16 ''brand'', utf16 ''model'', utf16 ''deductionReasoning'',
           utf16 ''yearOfManufacture'', utf16 ''motorization'', utf16 ''fuelType''])\<rparr>"

definition analyzeVehicleByVin :: "env \<Rightarrow> 'n host \<Rightarrow> jsstring \<Rightarrow> 'n json outcome" where
  "analyzeVehicleByVin env h vin =
     (case getAIClient env of
        Inl e \<Rightarrow> (Inl e, [])
      | Inr ai \<Rightarrow>
          (let req = analyzeVehicleByVin_request vin in
           case generateContent env ai req of
             Inl e \<Rightarrow> (Inl e, [req])
           | Inr response \<Rightarrow>
               (case response_text response of
                  None \<Rightarrow> (Inr (JObject []), [req])
                | Some textResponse \<Rightarrow>
                    if textResponse = [] then (Inr (JObject []), [req])
                    else (parse h (trim textResponse), [req]))))"

subsection \<open>analyzeVehicleCritical\<close>

definition analyzeVehicleCritical_systemPrompt :: jsstring where
  "analyzeVehicleCritical_systemPrompt =
     joinLines
     [utf16 ''Tu es KHABIR, expert extraction documentaire automobile au Maroc.'',
      utf16 ''       Ta mission est d'extraire le VIN (Num'' @ [0xE9] @ utf16 ''ro de Ch'' @
       [0xE2] @ utf16 ''ssis) de l'image.'',
      utf16 ''       '',
      utf16 ''       R'' @ [0xC8] @ utf16 ''GLES CRITIQUES (ISO 3779 & NM ISO 3779 Maroc) :'',
      utf16 ''       1. VIN = 17 caract'' @ [0xE8] @ utf16 ''res alphanum'' @ [0xE9] @
       utf16 ''riques (0-9, A-Z sauf I, O, Q pour '' @ [0xE9] @ utf16 ''viter confusion).'',
      utf16 ''       2. Isole la zone du VIN (pare-brise, porti'' @ [0xE8] @
       utf16 ''re, carte grise) et OCR le texte.'',
      utf16 ''       3. CORRIGE les erreurs d'OCR courantes :'',
      utf16 ''          - 'I' -> '1'' @ [0x27],
      utf16 ''          - 'O' -> '0'' @ [0x27],
      utf16 ''          - 'Q' -> '0'' @ [0x27],
      utf16 ''          - 'B' -> '8'' @ [0x27],
      utf16 ''          - 'S' -> '5'' @ [0x27],
      utf16 ''          - 'Z' -> '2'' @ [0x27],
      utf16 ''       '',
      utf16 ''       ANALYSE DU V'' @ [0xC9] @ utf16 ''HICULE (D'' @ [0xC9] @ utf16 ''DUCTION) :'',
      utf16 ''       - Utilise le WMI (3 premiers chars) pour la Marque/Pays.'',
      utf16 ''       - Utilise le VDS (chars 4-9) pour le Mod'' @ [0xE8] @ utf16 ''le/Moteur.'',
      utf16 ''       - Utilise le caract'' @ [0xE8] @ utf16 ''re 10 pour l'Ann'' @ [0xE9] @
       utf16 ''e Mod'' @ [0xE8] @ utf16 ''le (Code Ann'' @ [0xE9] @ utf16 ''e).'',
      utf16 ''       '',
      utf16 ''       EXTRAIRE :'',
      utf16 ''       - brand : Nom du constructeur (Uppercased).'',
      utf16 ''       - model : Mod'' @ [0xE8] @ utf16 ''le d'' @ [0xE9] @ utf16 ''duit du VDS.'',
      utf16 ''       - vin : Le VIN corrig'' @ [0xE9] @ utf16 '' de 17 caract'' @ [0xE8] @
       utf16 ''res.'',
      utf16 ''       - deductionReasoning : '' @ [0x22] @ utf16 ''Identifi'' @ [0xE9] @
       utf16 '' [Marque] [Mod'' @ [0xE8] @ utf16 ''le] gr'' @ [0xE2] @
       utf16 ''ce au code WMI [XXX] et VDS [XXXX].'' @ [0x22],
      utf16 ''       - yearOfManufacture : Ann'' @ [0xE9] @ utf16 ''e d'' @ [0xE9] @
       utf16 ''duite du 10'' @ [0xE8] @ utf16 ''me caract'' @ [0xE8] @ utf16 ''re.'',
      utf16 ''       - licensePlate : Immatriculation (si visible).'',
      utf16 ''       - registrationYear : Ann'' @ [0xE9] @ utf16 ''e 1'' @ [0xE8] @
       utf16 ''re mise en circulation (si visible carte grise).'',
      utf16 ''       '',
      utf16 ''       R'' @ [0xE9] @ utf16 ''ponds uniquement en JSON pur.'',
      utf16 ''       FORMAT DATES : Ann'' @ [0xE9] @ utf16 ''es de 4 chiffres (YYYY).'']"

definition imageData :: "jsstring \<Rightarrow> jsstring" where
  \<comment> \<open>\<open>base64Image.split(',')[1] || base64Image\<close>\<close>
  "imageData base64Image = orElse (index (split 0x2C base64Image) 1) base64Image"

definition analyzeVehicleCritical_request :: "jsstring \<Rightarrow> jsstring \<Rightarrow> request" where
  "analyzeVehicleCritical_request base64Image mode =
     GenerateContent (utf16 ''gemini-3-flash-preview'')
       (Parts
          [inlineData (utf16 ''image/jpeg'') (imageData base64Image),
           text_part (utf16 ''Analyse critique ISO 3779 image de '' @ mode @ utf16 ''. JSON.'')])
       \<lparr>systemInstruction = analyzeVehicleCritical_systemPrompt,
        responseMimeType = Some (utf16 ''application/json''),
        responseSchema = Some (objectSchema
          [(utf16 ''vin'', typed STRING),
           (utf16 ''brand'', typed STRING),
           (utf16 ''model'', typed STRING),
           (utf16 ''deductionReasoning'', typed STRING),
           (utf16 ''yearOfManufacture'', typed STRING),
           (utf16 ''licensePlate'', typed STRING),
           (utf16 ''registrationYear'', typed STRING)]
          [utf16 ''brand'', utf16 ''vin'', utf16 ''model''])\<rparr>"

definition stringOr :: "'n host \<Rightarrow> 'n json \<Rightarrow> jsstring \<Rightarrow> jsstring \<Rightarrow> error + jsstring" where
  \<comment> \<open>\<open>String(rawData.name || fallback)\<close>\<close>
  "stringOr h rawData name fallback =
     (case getProp rawData name of
        Inl e \<Rightarrow> Inl e
      | Inr x \<Rightarrow> String h (orValue h x (JString fallback)))"

definition postProcess :: "'n host \<Rightarrow> 'n json \<Rightarrow> error + 'n json" where
  \<comment> \<open>The object literal that \<open>analyzeVehicleCritical\<close> returns; its properties are
      evaluated in order and the first exception leaves the function.\<close>
  "postProcess h rawData =
     (case stringOr h rawData (utf16 ''vin'') [] of Inl e \<Rightarrow> Inl e | Inr vin \<Rightarrow>
      case stringOr h rawData (utf16 ''brand'') (utf16 ''Inconnu'') of Inl e \<Rightarrow> Inl e | Inr brand \<Rightarrow>
      case stringOr h rawData (utf16 ''model'') (utf16 ''ANALYSE...'') of Inl e \<Rightarrow> Inl e | Inr model \<Rightarrow>
      case getProp rawData (utf16 ''deductionReasoning'') of Inl e \<Rightarrow> Inl e | Inr deductionReasoning \<Rightarrow>
      case stringOr h rawData (utf16 ''yearOfManufacture'') (utf16 ''N/A'') of Inl e \<Rightarrow> Inl e | Inr yearOfManufacture \<Rightarrow>
      case stringOr h rawData (utf16 ''licensePlate'') [] of Inl e \<Rightarrow> Inl e | Inr licensePlate \<Rightarrow>
      case stringOr h rawData (utf16 ''registrationYear'') [] of Inl e \<Rightarrow> Inl e | Inr registrationYear \<Rightarrow>
        Inr (JObject
          [(utf16 ''vin'', JString (toUpperCase h (replace_nonAlnum vin))),
           (utf16 ''brand'', JString (toUpperCase h brand)),
           (utf16 ''model'', JString (toUpperCase h model)),
           (utf16 ''deductionReasoning'', orValue h deductionReasoning (JString [])),
           (utf16 ''yearOfManufacture'', JString yearOfManufacture),
           (utf16 ''licensePlate'', JString licensePlate),
           (utf16 ''registrationYear'', JString registrationYear)]))"

definition modeOrDefault :: "jsstring option \<Rightarrow> jsstring" where
  \<comment> \<open>\<open>mode: ScanType = 'vin'\<close>: the default applies when the caller leaves it out.\<close>
  "modeOrDefault mode_arg = (case mode_arg of None \<Rightarrow> utf16 ''vin'' | Some m \<Rightarrow> m)"

definition analyzeVehicleCritical ::
  "env \<Rightarrow> 'n host \<Rightarrow> jsstring \<Rightarrow> jsstring option \<Rightarrow> 'n json outcome" where
  "analyzeVehicleCritical env h base64Image mode_arg =
     (let mode = modeOrDefault mode_arg in
      case getAIClient env of
        Inl e \<Rightarrow> (Inl e, [])
      | Inr ai \<Rightarrow>
          (let req = analyzeVehicleCritical_request base64Image mode in
           case generateContent env ai req of
             Inl e \<Rightarrow> (Inl e, [req])
           | Inr response \<Rightarrow>
               (case response_text response of
                  None \<Rightarrow> (Inl (Error (utf16 ''IA_EMPTY_RESPONSE'')), [req])
                | Some textResponse \<Rightarrow>
                    if textResponse = [] then (Inl (Error (utf16 ''IA_EMPTY_RESPONSE'')), [req])
                    else (case parse h (trim textResponse) of
                            Inl e \<Rightarrow> (Inl e, [req])
                          | Inr rawData \<Rightarrow> (postProcess h rawData, [req])))))"

subsection \<open>analyzeVehicleDetails\<close>

definition analyzeVehicleDetails_systemPrompt :: "jsstring \<Rightarrow> jsstring" where
  "analyzeVehicleDetails_systemPrompt brand =
     joinLines
     [utf16 ''Expert automobile sp'' @ [0xE9] @ utf16 ''cialiste du march'' @ [0xE9] @
       utf16 '' MAROCAIN (KABIR).'',
      utf16 ''       '' @ [0xC0] @ utf16 '' partir de cette image et sachant que la marque est '' @
       brand @ utf16 '', affine l'analyse.'',
      utf16 ''       '',
      utf16 ''       CONTEXTE MARCH'' @ [0xC9] @ utf16 '' MAROC (R'' @ [0xE9] @
       utf16 ''glementation NM ISO 3779):'',
      utf16 ''       - Le VIN doit '' @ [0xEA] @ utf16 ''tre conforme.'',
      utf16 ''       - Les motorisations sont souvent sp'' @ [0xE9] @
       utf16 ''cifiques (ex: 1.5 dCi, 2.0 TDI, 2.2 CDI).'',
      utf16 ''       - IMPORTATEURS OFFICIELS :'',
      utf16 ''         * Audi/VW/Skoda/Porsche/Bentley -> CAC (Centrale Automobile Ch'' @ [0xE9] @
       utf16 ''rifienne)'',
      utf16 ''         * Peugeot/Citro'' @ [0xEB] @ utf16 ''n/DS -> SOPRIAM'',
      utf16 ''         * Renault/Dacia -> RENAULT COMMERCE MAROC'',
      utf16 ''         * Toyota -> TOYOTA DU MAROC'',
      utf16 ''         * Fiat/Jeep/Alfa -> STELLANTIS MAROC'',
      utf16 ''         * BMW/Mini -> SMEIA'',
      utf16 ''         * Mercedes -> AUTO NEJMA'',
      utf16 ''         * Hyundai -> GLOBAL ENGINES'',
      utf16 ''         * Kia -> KIA MAROC'',
      utf16 ''       '',
      utf16 ''       CHAMPS '' @ [0xC0] @ utf16 '' AFFINER :'',
      utf16 ''       - model : Version/finition exacte si identifiable (ex: '' @ [0x22] @
       utf16 ''Golf 8 R-Line'' @ [0x22] @ utf16 '').'',
      utf16 ''       - motorization : D'' @ [0xC9] @
       utf16 ''DUCTION LOGIQUE via VIN et Visuel (ex: sigle 'TDI', '' @ [0xE9] @
       utf16 ''chappement).'',
      utf16 ''       - fuelType : ['' @ [0x22] @ utf16 ''Essence'' @ [0x22] @ utf16 '', '' @
       [0x22] @ utf16 ''Diesel'' @ [0x22] @ utf16 '', '' @ [0x22] @ utf16 ''Hybride'' @ [0x22] @
       utf16 '', '' @ [0x22, 0xC9] @ utf16 ''lectrique'' @ [0x22] @ utf16 '', '' @ [0x22] @
       utf16 ''N/A'' @ [0x22] @ utf16 ''].'',
      utf16 ''       - color : Nom commercial approximatif (ex: '' @ [0x22] @ utf16 ''Gris Nardo'' @
       [0x22] @ utf16 '', '' @ [0x22] @ utf16 ''Blanc Nacr'' @ [0xE9, 0x22] @ utf16 '').'',
      utf16 ''       - registrationYear : Ann'' @ [0xE9] @ utf16 ''e 1'' @ [0xE8] @
       utf16 ''re mise en circulation.'',
      utf16 ''       - deductionReasoning : EXPLIQUE COMMENT le mod'' @ [0xE8] @
       utf16 ''le et le moteur sont d'' @ [0xE9] @
       utf16 ''duits (Code Moteur dans le VIN ? Logo ?).'',
      utf16 ''       '',
      utf16 ''       R'' @ [0xE9] @ utf16 ''ponds uniquement en JSON pur.'']"

definition analyzeVehicleDetails_request :: "jsstring \<Rightarrow> jsstring \<Rightarrow> request" where
  "analyzeVehicleDetails_request base64Image brand =
     GenerateContent (utf16 ''gemini-3-flash-preview'')
       (Parts
          [inlineData (utf16 ''image/jpeg'') (imageData base64Image),
           text_part (utf16 ''Analyse d'' @ [0xE9] @ utf16 ''taill'' @ [0xE9] @ utf16 ''e pour '' @ brand @
                        utf16 ''. JSON.'')])
       \<lparr>systemInstruction = analyzeVehicleDetails_systemPrompt brand,
        responseMimeType = Some (utf16 ''application/json''),
        responseSchema = Some (objectSchema
          [(utf16 ''model'', typed STRING),
           (utf16 ''motorization'', typed STRING),
           (utf16 ''fuelType'', typed_enum STRING fuelTypes),
           (utf16 ''color'', typed STRING),
           (utf16 ''registrationYear'', typed STRING),
           (utf16 ''deductionReasoning'', typed STRING)]
          [])\<rparr>"

definition analyzeVehicleDetails ::
  "env \<Rightarrow> 'n host \<Rightarrow> jsstring \<Rightarrow> jsstring \<Rightarrow> 'n json outcome" where
  "analyzeVehicleDetails env h base64Image brand =
     (case getAIClient env of
        Inl e \<Rightarrow> (Inl e, [])
      | Inr ai \<Rightarrow>
          (let req = analyzeVehicleDetails_request base64Image brand in
           case generateContent env ai req of
             Inl e \<Rightarrow> (Inl e, [req])
           | Inr response \<Rightarrow>
               (case response_text response of
                  None \<Rightarrow> (Inr (JObject []), [req])
                | Some textResponse \<Rightarrow>
                    if textResponse = [] then (Inr (JObject []), [req])
                    else (parse h (trim textResponse), [req]))))"

subsection \<open>getVinAnalysisReport\<close>

definition getVinAnalysisReport_promptLines :: "jsstring \<Rightarrow> jsstring list" where
  "getVinAnalysisReport_promptLines vin =
     [utf16 ''Tu es KHABIR, expert automobile officiel au Maroc.'',
      utf16 ''       R'' @ [0xE9] @ utf16 ''dige un rapport d'expertise technique pour le VIN : '' @
       vin @ utf16 ''.'',
      utf16 ''       Le rapport doit rassurer l'acheteur et prouver la conformit'' @ [0xE9] @
       utf16 ''.'',
      utf16 ''       '',
      utf16 ''       STRUCTURE DU RAPPORT (Format Markdown) :'',
      utf16 ''       '',
      utf16 ''       ### 1. '' @ [0xD83D, 0xDE98] @ utf16 '' Identit'' @ [0xE9] @
       utf16 '' & Conformit'' @ [0xE9],
      utf16 ''       - **Marque/Mod'' @ [0xE8] @ utf16 ''le** : [Nom]'',
      utf16 ''       - **Origine** : [Pays d'' @ [0xE9] @ utf16 ''tect'' @ [0xE9] @
       utf16 '' via WMI]'',
      utf16 ''       - **Importateur Maroc** : (Citer l'importateur officiel: CAC pour VAG, Sopriam pour PSA, Auto Nejma pour Mercedes, Smeia pour BMW, etc.)'',
      utf16 ''       '',
      utf16 ''       ### 2. '' @ [0x2699, 0xFE0F] @ utf16 '' Analyse Technique (D'' @ [0xE9] @
       utf16 ''duction VIN)'',
      utf16 ''       - **Moteur** : [D'' @ [0xE9] @ utf16 ''duction via VDS]'',
      utf16 ''       - **Ann'' @ [0xE9] @ utf16 ''e Mod'' @ [0xE8] @ utf16 ''le** : [D'' @ [0xE9] @
       utf16 ''duction via 10'' @ [0xE8] @ utf16 ''me caract'' @ [0xE8] @ utf16 ''re]'',
      utf16 ''       - *Note : Cette analyse respecte la norme NM ISO 3779 en vigueur au Maroc.*'',
      utf16 ''       '',
      utf16 ''       ### 3. '' @ [0xD83D, 0xDD0D] @ utf16 '' D'' @ [0xE9] @ utf16 ''codage D'' @
       [0xE9] @ utf16 ''taill'' @ [0xE9],
      utf16 ''       | Section | Code | Signification |'',
      utf16 ''       | :--- | :--- | :--- |'',
      utf16 ''       | **WMI** | '' @ substring vin 0 3 @ utf16 '' | Constructeur / Pays |'',
      utf16 ''       | **VDS** | '' @ substring vin 3 9 @ utf16 '' | Caract'' @ [0xE9] @
       utf16 ''ristiques (Ch'' @ [0xE2] @ utf16 ''ssis, Moteur) |'',
      utf16 ''       | **VIS** | '' @ substring vin 9 17 @
       utf16 '' | Identification Unique / Usine |'',
      utf16 ''       '',
      utf16 ''       ### 4. '' @ [0x26A0, 0xFE0F] @ utf16 '' Points de Vigilance (Sp'' @ [0xE9] @
       utf16 ''cifique Mod'' @ [0xE8] @ utf16 ''le)'',
      utf16 ''       - Lister 2-3 points '' @ [0xE0] @ utf16 '' surveiller sur ce mod'' @ [0xE8] @
       utf16 ''le pr'' @ [0xE9] @ utf16 ''cis (ex: distribution, bo'' @ [0xEE] @
       utf16 ''te auto, etc.).'',
      utf16 ''       '',
      utf16 ''       Ton expert et professionnel. Pas de bla-bla g'' @ [0xE9] @ utf16 ''n'' @
       [0xE9] @ utf16 ''rique.'']"

definition getVinAnalysisReport_systemPrompt :: "jsstring \<Rightarrow> jsstring" where
  "getVinAnalysisReport_systemPrompt vin = joinLines (getVinAnalysisReport_promptLines vin)"

definition getVinAnalysisReport_request :: "jsstring \<Rightarrow> request" where
  "getVinAnalysisReport_request vin =
     GenerateContent (utf16 ''gemini-3-pro-preview'')
       (Text (utf16 ''G'' @ [0xE9] @ utf16 ''n'' @ [0xE8] @
                utf16 ''re le rapport d'expertise pour le VIN : '' @ vin @ utf16 ''.''))
       \<lparr>systemInstruction = getVinAnalysisReport_systemPrompt vin,
        responseMimeType = None,
        responseSchema = None\<rparr>"

definition reportFallback :: jsstring where
  "reportFallback =
     utf16 ''Impossible de g'' @ [0xE9] @ utf16 ''n'' @ [0xE9] @ utf16 ''rer le rapport pour ce VIN.''"

definition chatFallback :: jsstring where
  "chatFallback =
     utf16 ''D'' @ [0xE9] @ utf16 ''sol'' @ [0xE9] @ utf16 '', je n'ai pas pu traiter votre demande.''"

definition trimmedOr :: "jsstring option \<Rightarrow> jsstring \<Rightarrow> jsstring" where
  \<comment> \<open>\<open>text?.trim() || fallback\<close>\<close>
  "trimmedOr text_opt fallback = orElse (map_option trim text_opt) fallback"

definition getVinAnalysisReport :: "env \<Rightarrow> jsstring \<Rightarrow> jsstring outcome" where
  "getVinAnalysisReport env vin =
     (case getAIClient env of
        Inl e \<Rightarrow> (Inl e, [])
      | Inr ai \<Rightarrow>
          (let req = getVinAnalysisReport_request vin in
           case generateContent env ai req of
             Inl e \<Rightarrow> (Inl e, [req])
           | Inr response \<Rightarrow>
               (Inr (trimmedOr (response_text response) reportFallback), [req])))"

subsection \<open>chatWithExpert\<close>

definition chatWithExpert_request :: "Content list \<Rightarrow> jsstring \<Rightarrow> request" where
  \<comment> \<open>\<open>ai.chats.create\<close> only builds the session; \<open>sendMessage\<close> is the request.\<close>
  "chatWithExpert_request history question =
     SendMessage (utf16 ''gemini-3-flash-preview'')
       \<lparr>systemInstruction =
          joinLines
          [utf16 ''Tu es KHABIR, un expert automobile marocain tr'' @ [0xE8] @ utf16 ''s exp'' @ [0xE9] @
            utf16 ''riment'' @ [0xE9] @ utf16 '' et serviable. '',
           utf16 ''            R'' @ [0xE9] @ utf16 ''ponds aux questions techniques sur les v'' @
            [0xE9] @ utf16 ''hicules, les pannes, les proc'' @ [0xE9] @
            utf16 ''dures d'entretien, et le march'' @ [0xE9] @ utf16 '' marocain. '',
           utf16 ''            Sois pr'' @ [0xE9] @
            utf16 ''cis, concis et utilise un langage accessible.''],
        responseMimeType = None,
        responseSchema = None\<rparr>
       history question"

definition chatWithExpert :: "env \<Rightarrow> Content list \<Rightarrow> jsstring \<Rightarrow> jsstring outcome" where
  "chatWithExpert env history question =
     (case getAIClient env of
        Inl e \<Rightarrow> (Inl e, [])
      | Inr ai \<Rightarrow>
          (let req = chatWithExpert_request history question in
           case sendMessage env ai req of
             Inl e \<Rightarrow> (Inl e, [req])
           | Inr response \<Rightarrow>
               (Inr (trimmedOr (response_text response) chatFallback), [req])))"

subsection \<open>estimateMarketValue\<close>

text \<open>
  Modelled from the spec: the declaration of \<open>VehicleAnalysis\<close> (\<open>../types\<close>) is not
  among the sources. These are the fields \<open>estimateMarketValue\<close> reads; the two it
  guards with \<open>||\<close> are optional.
\<close>

record VehicleAnalysis =
  va_brand :: jsstring
  va_model :: jsstring
  va_yearOfManufacture :: jsstring
  va_registrationYear :: "jsstring option"
  va_motorization :: jsstring
  va_fuelType :: jsstring
  va_inventoryNotes :: "jsstring option"

definition estimateMarketValue_systemPrompt :: "VehicleAnalysis \<Rightarrow> jsstring" where
  "estimateMarketValue_systemPrompt vehicle =
     joinLines
     [utf16 ''Tu es un expert en '' @ [0xE9] @ utf16 ''valuation de v'' @ [0xE9] @
       utf16 ''hicules d'occasion au MAROC.'',
      utf16 ''  Analyse les d'' @ [0xE9] @
       utf16 ''tails suivants et fournis une estimation de la valeur marchande en Dirhams Marocains (MAD).'',
      [],
      utf16 ''  D'' @ [0xC9] @ utf16 ''TAILS DU V'' @ [0xC9] @ utf16 ''HICULE :'',
      utf16 ''  - Marque: '' @ va_brand vehicle,
      utf16 ''  - Mod'' @ [0xE8] @ utf16 ''le: '' @ va_model vehicle,
      utf16 ''  - Ann'' @ [0xE9] @ utf16 ''e de fabrication: '' @ va_yearOfManufacture vehicle,
      utf16 ''  - Ann'' @ [0xE9] @ utf16 ''e de 1'' @ [0xE8] @ utf16 ''re immatriculation: '' @
       orElse (va_registrationYear vehicle) (utf16 ''N/A''),
      utf16 ''  - Motorisation: '' @ va_motorization vehicle,
      utf16 ''  - Carburant: '' @ va_fuelType vehicle,
      utf16 ''  - Notes sur l'' @ [0x27, 0xE9] @ utf16 ''tat: '' @
       orElse (va_inventoryNotes vehicle) (utf16 ''Pas de notes sp'' @ [0xE9] @
       utf16 ''cifiques sur l'' @ [0x27, 0xE9] @ utf16 ''tat.''),
      [],
      utf16 ''  TA MISSION :'',
      utf16 ''  1.  **Estimer une fourchette de prix r'' @ [0xE9] @
       utf16 ''aliste** (min et max) pour une vente entre particuliers au Maroc.'',
      utf16 ''  2.  **Fournir une justification claire** expliquant les facteurs pris en compte (popularit'' @
       [0xE9] @ utf16 '' du mod'' @ [0xE8] @ utf16 ''le, motorisation, d'' @ [0xE9] @
       utf16 ''cote, '' @ [0xE9] @ utf16 ''tat g'' @ [0xE9] @ utf16 ''n'' @ [0xE9] @
       utf16 ''ral suppos'' @ [0xE9] @ utf16 '' bas'' @ [0xE9] @ utf16 '' sur les notes).'',
      [],
      utf16 ''  R'' @ [0xE9] @
       utf16 ''ponds uniquement en JSON pur. Ne rajoute aucun commentaire en dehors du JSON.'']"

definition estimateMarketValue_request :: "VehicleAnalysis \<Rightarrow> request" where
  "estimateMarketValue_request vehicle =
     GenerateContent (utf16 ''gemini-3-pro-preview'')
       (Text (utf16 ''Estime la valeur de ce v'' @ [0xE9] @ utf16 ''hicule.''))
       \<lparr>systemInstruction = estimateMarketValue_systemPrompt vehicle,
        responseMimeType = Some (utf16 ''application/json''),
        responseSchema = Some (objectSchema
          [(utf16 ''marketValueMin'', typed_description INTEGER (utf16 ''Prix minimum estim'' @ [0xE9] @ utf16 '' en MAD'')),
           (utf16 ''marketValueMax'', typed_description INTEGER (utf16 ''Prix maximum estim'' @ [0xE9] @ utf16 '' en MAD'')),
           (utf16 ''marketValueJustification'', typed_description STRING
              (utf16 ''Justification d'' @ [0xE9] @ utf16 ''taill'' @ [0xE9] @ utf16 ''e de l'estimation.''))]
          [utf16 ''marketValueMin'', utf16 ''marketValueMax'',
           utf16 ''marketValueJustification''])\<rparr>"

definition estimateMarketValue :: "env \<Rightarrow> 'n host \<Rightarrow> VehicleAnalysis \<Rightarrow> 'n json outcome" where
  "estimateMarketValue env h vehicle =
     (case getAIClient env of
        Inl e \<Rightarrow> (Inl e, [])
      | Inr ai \<Rightarrow>
          (let req = estimateMarketValue_request vehicle in
           case generateContent env ai req of
             Inl e \<Rightarrow> (Inl e, [req])
           | Inr response \<Rightarrow>
               (case response_text response of
                  None \<Rightarrow> (Inl (Error (utf16 ''IA_ESTIMATION_FAILED'')), [req])
                | Some textResponse \<Rightarrow>
                    if textResponse = [] then (Inl (Error (utf16 ''IA_ESTIMATION_FAILED'')), [req])
                    else (parse h (trim textResponse), [req]))))"

section \<open>Reading results, and the statements the operations are compared with\<close>

definition isUpperAlnum :: "jschar \<Rightarrow> bool" where
  \<comment> \<open>a code unit of \<open>[A-Z0-9]\<close>\<close>
  "isUpperAlnum c = ((0x41 \<le> c \<and> c \<le> 0x5A) \<or> (0x30 \<le> c \<and> c \<le> 0x39))"

definition isString :: "'n json option \<Rightarrow> bool" where
  "isString x = (case x of Some (JString s) \<Rightarrow> True | _ \<Rightarrow> False)"

fun inlineDataOf :: "part list \<Rightarrow> jsstring list" where
  "inlineDataOf [] = []"
| "inlineDataOf (inlineData m d # ps) = d # inlineDataOf ps"
| "inlineDataOf (text_part s # ps) = inlineDataOf ps"

fun forwardedData :: "request \<Rightarrow> jsstring list" where
  \<comment> \<open>the image payloads a request carries\<close>
  "forwardedData (GenerateContent m (Parts ps) c) = inlineDataOf ps"
| "forwardedData (GenerateContent m (Text s) c) = []"
| "forwardedData (SendMessage m c history question) = []"

fun instructionOf :: "request \<Rightarrow> jsstring" where
  \<comment> \<open>the instruction text a request carries\<close>
  "instructionOf (GenerateContent m c cfg) = systemInstruction cfg"
| "instructionOf (SendMessage m cfg history question) = systemInstruction cfg"

definition stringValued :: "(jsstring \<times> 'n json) list \<Rightarrow> bool" where
  \<comment> \<open>every property is a string, as the response schema declares them\<close>
  "stringValued kvs = list_all (\<lambda>(name, v). isString (Some v)) kvs"

definition afterFirstComma :: "jsstring \<Rightarrow> jsstring" where
  \<comment> \<open>the portion of a string after its first comma (empty when it has none)\<close>
  "afterFirstComma s = drop 1 (dropWhile (\<lambda>c. c \<noteq> 0x2C) s)"

definition claimed_imageData :: "jsstring \<Rightarrow> jsstring" where
  \<comment> \<open>The specification's words for the forwarded payload: the portion after the first
      comma when the input contains a comma and that portion is non-empty, the input
      otherwise.\<close>
  "claimed_imageData s =
     (if 0x2C \<in> set s \<and> afterFirstComma s \<noteq> [] then afterFirstComma s else s)"

definition secondSegment :: "jsstring \<Rightarrow> jsstring" where
  \<comment> \<open>the portion between the first comma and the second, or the end of the string\<close>
  "secondSegment s = takeWhile (\<lambda>c. c \<noteq> 0x2C) (afterFirstComma s)"

subsection \<open>A sample world\<close>

text \<open>
  A configured key with an oracle that answers every request with the same text, and a
  host whose \<open>JSON.parse\<close> is tabulated on two texts: \<open>{}\<close> and
  \<open>{"vin":"wvw-zzz 1k","extra":true}\<close>. No number occurs in them. A second host
  parses \<open>{"yearOfManufacture":true,"licensePlate":"12345-A-6"}\<close>, a reply that
  supplies a year that is not a string, and a plate.
\<close>

definition sample_env :: "jsstring option \<Rightarrow> env" where
  "sample_env t =
     \<lparr>API_KEY = Some (utf16 ''sample-key''), generate = (\<lambda>key req. Inr (Response t))\<rparr>"

definition unconfigured_env :: "jsstring option \<Rightarrow> env" where
  \<comment> \<open>the same oracle behind a process configuration without a key\<close>
  "unconfigured_env t = \<lparr>API_KEY = None, generate = (\<lambda>key req. Inr (Response t))\<rparr>"

definition sample_vehicle :: VehicleAnalysis where
  "sample_vehicle =
     \<lparr>va_brand = utf16 ''AUDI'', va_model = utf16 ''A1'', va_yearOfManufacture = utf16 ''2010'',
      va_registrationYear = None, va_motorization = utf16 ''1.6 TDI'',
      va_fuelType = utf16 ''Diesel'', va_inventoryNotes = None\<rparr>"

definition quoted :: "jsstring \<Rightarrow> jsstring" where
  "quoted s = [0x22] @ s @ [0x22]"

definition sample_reply :: jsstring where
  "sample_reply =
     utf16 ''{'' @ quoted (utf16 ''vin'') @ utf16 '':'' @ quoted (utf16 ''wvw-zzz 1k'') @
     utf16 '','' @ quoted (utf16 ''extra'') @ utf16 '':true}''"

definition sample_value :: "unit json" where
  "sample_value =
     JObject [(utf16 ''vin'', JString (utf16 ''wvw-zzz 1k'')), (utf16 ''extra'', JBool True)]"

definition sample_host :: "unit host" where
  "sample_host =
     \<lparr>JSON_parse = (\<lambda>s. if s = utf16 ''{}'' then Some (JObject [])
                        else if s = sample_reply then Some sample_value
                        else None),
      Number_toString = (\<lambda>n. utf16 ''0''),
      Number_falsy = (\<lambda>n. True),
      toUpperCase_unicode = (\<lambda>s. s)\<rparr>"

definition plate_reply :: jsstring where
  "plate_reply =
     utf16 ''{'' @ quoted (utf16 ''yearOfManufacture'') @ utf16 '':true,'' @
     quoted (utf16 ''licensePlate'') @ utf16 '':'' @ quoted (utf16 ''12345-A-6'') @ utf16 ''}''"

definition plate_value :: "unit json" where
  "plate_value =
     JObject [(utf16 ''yearOfManufacture'', JBool True),
              (utf16 ''licensePlate'', JString (utf16 ''12345-A-6''))]"

definition plate_host :: "unit host" where
  "plate_host =
     sample_host\<lparr>JSON_parse := (\<lambda>s. if s = plate_reply then Some plate_value else None)\<rparr>"

section \<open>How each operation ends\<close>

text \<open>
  Once the key is configured and the oracle has answered, each operation is a function
  of the reply's text alone, and it has sent exactly its one request.
\<close>

lemma analyzeVehicleByVin_answered:
  assumes "answers env (analyzeVehicleByVin_request vin) t"
  shows "analyzeVehicleByVin env h vin =
    (case t of None \<Rightarrow> Inr (JObject [])
     | Some s \<Rightarrow> if s = [] then Inr (JObject []) else parse h (trim s),
     [analyzeVehicleByVin_request vin])"
  using assms
  by (auto simp: answers_def analyzeVehicleByVin_def generateContent_def Let_def
      split: sum.splits option.splits)

lemma analyzeVehicleDetails_answered:
  assumes "answers env (analyzeVehicleDetails_request base64Image brand) t"
  shows "analyzeVehicleDetails env h base64Image brand =
    (case t of None \<Rightarrow> Inr (JObject [])
     | Some s \<Rightarrow> if s = [] then Inr (JObject []) else parse h (trim s),
     [analyzeVehicleDetails_request base64Image brand])"
  using assms
  by (auto simp: answers_def analyzeVehicleDetails_def generateContent_def Let_def
      split: sum.splits option.splits)

lemma estimateMarketValue_answered:
  assumes "answers env (estimateMarketValue_request vehicle) t"
  shows "estimateMarketValue env h vehicle =
    (case t of None \<Rightarrow> Inl (Error (utf16 ''IA_ESTIMATION_FAILED''))
     | Some s \<Rightarrow> if s = [] then Inl (Error (utf16 ''IA_ESTIMATION_FAILED''))
                else parse h (trim s),
     [estimateMarketValue_request vehicle])"
  using assms
  by (auto simp: answers_def estimateMarketValue_def generateContent_def Let_def
      split: sum.splits option.splits)

lemma analyzeVehicleCritical_answered:
  assumes "answers env (analyzeVehicleCritical_request base64Image (modeOrDefault mode_arg)) t"
  shows "analyzeVehicleCritical env h base64Image mode_arg =
    (case t of None \<Rightarrow> Inl (Error (utf16 ''IA_EMPTY_RESPONSE''))
     | Some s \<Rightarrow> if s = [] then Inl (Error (utf16 ''IA_EMPTY_RESPONSE''))
                else (case parse h (trim s) of Inl e \<Rightarrow> Inl e
                      | Inr rawData \<Rightarrow> postProcess h rawData),
     [analyzeVehicleCritical_request base64Image (modeOrDefault mode_arg)])"
  using assms
  by (auto simp: answers_def analyzeVehicleCritical_def generateContent_def Let_def
      split: sum.splits option.splits)

lemma getVinAnalysisReport_answered:
  assumes "answers env (getVinAnalysisReport_request vin) t"
  shows "getVinAnalysisReport env vin =
    (Inr (trimmedOr t reportFallback), [getVinAnalysisReport_request vin])"
  using assms
  by (auto simp: answers_def getVinAnalysisReport_def generateContent_def Let_def
      split: sum.splits option.splits)

lemma chatWithExpert_answered:
  assumes "answers env (chatWithExpert_request history question) t"
  shows "chatWithExpert env history question =
    (Inr (trimmedOr t chatFallback), [chatWithExpert_request history question])"
  using assms
  by (auto simp: answers_def chatWithExpert_def sendMessage_def Let_def
      split: sum.splits option.splits)

lemma analyzeVehicleCritical_sends:
  assumes "getAIClient env = Inr ai"
  shows "snd (analyzeVehicleCritical env h base64Image mode_arg) =
    [analyzeVehicleCritical_request base64Image (modeOrDefault mode_arg)]"
  using assms
  by (simp add: analyzeVehicleCritical_def Let_def split: sum.splits option.splits)

lemma analyzeVehicleDetails_sends:
  assumes "getAIClient env = Inr ai"
  shows "snd (analyzeVehicleDetails env h base64Image brand) =
    [analyzeVehicleDetails_request base64Image brand]"
  using assms
  by (simp add: analyzeVehicleDetails_def Let_def split: sum.splits option.splits)

lemma analyzeVehicleCritical_returns:
  assumes "analyzeVehicleCritical env h base64Image mode_arg = (Inr r, reqs)"
  shows "\<exists>t rawData. t \<noteq> [] \<and> JSON_parse h (trim t) = Some rawData
           \<and> postProcess h rawData = Inr r"
  using assms unfolding analyzeVehicleCritical_def parse_def
  by (auto simp: Let_def split: sum.splits option.splits if_splits)

subsection \<open>Trimming\<close>

lemma trim_blank:
  assumes "list_all isWhiteSpace t"
  shows "trim t = []"
proof -
  have blank: "dropWhile isWhiteSpace t = []"
    using assms by (simp add: list_all_iff)
  show ?thesis unfolding trim_def blank by simp
qed

lemma trimmedOr_blank: "list_all isWhiteSpace t \<Longrightarrow> trimmedOr (Some t) d = d"
  by (simp add: trimmedOr_def orElse_def trim_blank)

lemma trim_object_text: "trim ([0x7B] @ body @ [0x7D]) = [0x7B] @ body @ [0x7D]"
  by (simp add: trim_def isWhiteSpace_def)

subsection \<open>The sample world\<close>

lemma sample_env_answers: "answers (sample_env t) req t"
  by (simp add: answers_def sample_env_def getAIClient_def utf16_def)

lemma sample_env_client: "getAIClient (sample_env t) = Inr (GoogleGenAI (utf16 ''sample-key''))"
  by (simp add: sample_env_def getAIClient_def utf16_def)

lemma sample_reply_text: "\<exists>body. sample_reply = [0x7B] @ body @ [0x7D]"
  by (simp add: sample_reply_def quoted_def utf16_def)

lemma sample_trim [simp]: "trim sample_reply = sample_reply"
  using sample_reply_text trim_object_text by metis

lemma sample_reply_nonempty [simp]: "sample_reply \<noteq> []"
  by (simp add: sample_reply_def quoted_def utf16_def)

lemma sample_parse [simp]: "JSON_parse sample_host sample_reply = Some sample_value"
  by (simp add: sample_host_def sample_reply_def quoted_def utf16_def)

lemma empty_object_trim [simp]: "trim (utf16 ''{}'') = utf16 ''{}''"
  by (simp add: trim_def utf16_def isWhiteSpace_def)

lemma empty_object_parse [simp]: "JSON_parse sample_host (utf16 ''{}'') = Some (JObject [])"
  by (simp add: sample_host_def)

lemma empty_object_nonempty [simp]: "utf16 ''{}'' \<noteq> []"
  by (simp add: utf16_def)

lemma empty_text_parse: "JSON_parse sample_host [] = None"
  by (simp add: sample_host_def sample_reply_def quoted_def utf16_def)

lemma postProcess_sample:
  "postProcess sample_host sample_value = Inr (JObject
     [(utf16 ''vin'', JString (utf16 ''WVWZZZ1K'')),
      (utf16 ''brand'', JString (utf16 ''INCONNU'')),
      (utf16 ''model'', JString (utf16 ''ANALYSE...'')),
      (utf16 ''deductionReasoning'', JString []),
      (utf16 ''yearOfManufacture'', JString (utf16 ''N/A'')),
      (utf16 ''licensePlate'', JString []),
      (utf16 ''registrationYear'', JString [])])"
  by (simp add: postProcess_def sample_value_def stringOr_def getProp_def orValue_def
      toUpperCase_def replace_nonAlnum_def isAlnum_def upperASCII_def utf16_def)

lemma postProcess_empty_object:
  "postProcess sample_host (JObject []) = Inr (JObject
     [(utf16 ''vin'', JString []),
      (utf16 ''brand'', JString (utf16 ''INCONNU'')),
      (utf16 ''model'', JString (utf16 ''ANALYSE...'')),
      (utf16 ''deductionReasoning'', JString []),
      (utf16 ''yearOfManufacture'', JString (utf16 ''N/A'')),
      (utf16 ''licensePlate'', JString []),
      (utf16 ''registrationYear'', JString [])])"
  by (simp add: postProcess_def stringOr_def getProp_def orValue_def
      toUpperCase_def replace_nonAlnum_def isAlnum_def upperASCII_def utf16_def)

lemma analyzeVehicleCritical_sample:
  "fst (analyzeVehicleCritical (sample_env (Some sample_reply)) sample_host base64Image mode_arg) =
     postProcess sample_host sample_value"
  by (simp add: analyzeVehicleCritical_answered [OF sample_env_answers] parse_def)

lemma analyzeVehicleCritical_empty_object:
  "fst (analyzeVehicleCritical (sample_env (Some (utf16 ''{}''))) sample_host base64Image mode_arg) =
     postProcess sample_host (JObject [])"
  by (simp add: analyzeVehicleCritical_answered [OF sample_env_answers] parse_def)

lemma plate_reply_text: "\<exists>body. plate_reply = [0x7B] @ body @ [0x7D]"
  by (simp add: plate_reply_def quoted_def utf16_def)

lemma plate_trim [simp]: "trim plate_reply = plate_reply"
  using plate_reply_text trim_object_text by metis

lemma plate_reply_nonempty [simp]: "plate_reply \<noteq> []"
  by (simp add: plate_reply_def quoted_def utf16_def)

lemma plate_parse [simp]: "JSON_parse plate_host plate_reply = Some plate_value"
  by (simp add: plate_host_def)

lemma postProcess_plate:
  "postProcess plate_host plate_value = Inr (JObject
     [(utf16 ''vin'', JString []),
      (utf16 ''brand'', JString (utf16 ''INCONNU'')),
      (utf16 ''model'', JString (utf16 ''ANALYSE...'')),
      (utf16 ''deductionReasoning'', JString []),
      (utf16 ''yearOfManufacture'', JString (utf16 ''true'')),
      (utf16 ''licensePlate'', JString (utf16 ''12345-A-6'')),
      (utf16 ''registrationYear'', JString [])])"
  by (simp add: postProcess_def plate_value_def stringOr_def getProp_def orValue_def
      toUpperCase_def replace_nonAlnum_def isAlnum_def upperASCII_def utf16_def)

lemma analyzeVehicleCritical_plate:
  "fst (analyzeVehicleCritical (sample_env (Some plate_reply)) plate_host base64Image mode_arg) =
     postProcess plate_host plate_value"
  by (simp add: analyzeVehicleCritical_answered [OF sample_env_answers] parse_def)

section \<open>The policy on an empty reply\<close>

text \<open>
  C1. When the oracle's reply has no text or an empty text, \<open>analyzeVehicleByVin\<close> and
  \<open>analyzeVehicleDetails\<close> return the empty object, \<open>analyzeVehicleCritical\<close> throws
  the error named \<open>IA_EMPTY_RESPONSE\<close> and \<open>estimateMarketValue\<close> the error named
  \<open>IA_ESTIMATION_FAILED\<close>, the two names differ, and \<open>getVinAnalysisReport\<close> and
  \<open>chatWithExpert\<close> return their fixed fallback strings.
\<close>

theorem empty_reply_policy:
  assumes "t = None \<or> t = Some []"
  shows "(answers env (analyzeVehicleByVin_request vin) t \<longrightarrow>
            analyzeVehicleByVin env h vin = (Inr (JObject []), [analyzeVehicleByVin_request vin]))
       \<and> (answers env (analyzeVehicleDetails_request base64Image brand) t \<longrightarrow>
            analyzeVehicleDetails env h base64Image brand =
              (Inr (JObject []), [analyzeVehicleDetails_request base64Image brand]))
       \<and> (answers env (analyzeVehicleCritical_request base64Image (modeOrDefault mode_arg)) t \<longrightarrow>
            analyzeVehicleCritical env h base64Image mode_arg =
              (Inl (Error (utf16 ''IA_EMPTY_RESPONSE'')),
               [analyzeVehicleCritical_request base64Image (modeOrDefault mode_arg)]))
       \<and> (answers env (estimateMarketValue_request vehicle) t \<longrightarrow>
            estimateMarketValue env h vehicle =
              (Inl (Error (utf16 ''IA_ESTIMATION_FAILED'')), [estimateMarketValue_request vehicle]))
       \<and> Error (utf16 ''IA_EMPTY_RESPONSE'') \<noteq> Error (utf16 ''IA_ESTIMATION_FAILED'')
       \<and> (answers env (getVinAnalysisReport_request vin) t \<longrightarrow>
            getVinAnalysisReport env vin = (Inr reportFallback, [getVinAnalysisReport_request vin]))
       \<and> (answers env (chatWithExpert_request history question) t \<longrightarrow>
            chatWithExpert env history question =
              (Inr chatFallback, [chatWithExpert_request history question]))"
proof -
  have fallback: "trimmedOr t d = d" for d
    using assms by (auto simp: trimmedOr_def orElse_def trim_def)
  have names: "Error (utf16 ''IA_EMPTY_RESPONSE'') \<noteq> Error (utf16 ''IA_ESTIMATION_FAILED'')"
    by (simp add: utf16_def)
  show ?thesis
    using assms names
    by (auto simp: analyzeVehicleByVin_answered analyzeVehicleDetails_answered
        analyzeVehicleCritical_answered estimateMarketValue_answered
        getVinAnalysisReport_answered chatWithExpert_answered fallback)
qed

theorem empty_reply_policy_witness:
  "analyzeVehicleByVin (sample_env (Some [])) sample_host (utf16 ''WVWZZZ1KZAW000001'') =
     (Inr (JObject []), [analyzeVehicleByVin_request (utf16 ''WVWZZZ1KZAW000001'')])
   \<and> analyzeVehicleCritical (sample_env (Some [])) sample_host (utf16 ''AAAA'') None =
     (Inl (Error (utf16 ''IA_EMPTY_RESPONSE'')),
      [analyzeVehicleCritical_request (utf16 ''AAAA'') (utf16 ''vin'')])
   \<and> estimateMarketValue (sample_env (Some [])) sample_host sample_vehicle =
     (Inl (Error (utf16 ''IA_ESTIMATION_FAILED'')), [estimateMarketValue_request sample_vehicle])
   \<and> getVinAnalysisReport (sample_env (Some [])) (utf16 ''WVWZZZ1KZAW000001'') =
     (Inr reportFallback, [getVinAnalysisReport_request (utf16 ''WVWZZZ1KZAW000001'')])"
  using empty_reply_policy [where t = "Some []" and env = "sample_env (Some [])"
      and vin = "utf16 ''WVWZZZ1KZAW000001''" and h = sample_host
      and base64Image = "utf16 ''AAAA''" and mode_arg = None and vehicle = sample_vehicle]
  by (simp add: sample_env_answers modeOrDefault_def)

section \<open>The missing key\<close>

text \<open>
  C6. When the API key is absent from the process configuration (or empty), each of the
  six operations throws the missing-credential error, and it has sent no request to
  the oracle.
\<close>

theorem missing_key_is_fatal:
  assumes "API_KEY env = None \<or> API_KEY env = Some []"
  shows "analyzeVehicleByVin env h vin = (Inl (Error keyMissing), [])
       \<and> analyzeVehicleCritical env h base64Image mode_arg = (Inl (Error keyMissing), [])
       \<and> analyzeVehicleDetails env h base64Image brand = (Inl (Error keyMissing), [])
       \<and> getVinAnalysisReport env vin = (Inl (Error keyMissing), [])
       \<and> chatWithExpert env history question = (Inl (Error keyMissing), [])
       \<and> estimateMarketValue env h vehicle = (Inl (Error keyMissing), [])"
proof -
  have "getAIClient env = Inl (Error keyMissing)"
    using assms by (auto simp: getAIClient_def)
  then show ?thesis
    by (simp add: analyzeVehicleByVin_def analyzeVehicleCritical_def analyzeVehicleDetails_def
        getVinAnalysisReport_def chatWithExpert_def estimateMarketValue_def)
qed

theorem missing_key_is_fatal_witness:
  "analyzeVehicleByVin (unconfigured_env (Some sample_reply)) sample_host (utf16 ''WVWZZZ1KZAW000001'') =
     (Inl (Error keyMissing), [])
   \<and> chatWithExpert (unconfigured_env (Some sample_reply)) [] (utf16 ''Bonjour'') =
     (Inl (Error keyMissing), [])"
  using missing_key_is_fatal [where env = "unconfigured_env (Some sample_reply)"
      and h = sample_host and vin = "utf16 ''WVWZZZ1KZAW000001''" and history = "[]"
      and question = "utf16 ''Bonjour''"]
  by (simp add: unconfigured_env_def)

section \<open>The blank reply\<close>

text \<open>
  C9. A reply that is not empty but holds white space only is not taken for an empty
  one by the four operations that return JSON: they parse the trimmed text, which is
  empty, and the parse failure leaves them (not the empty object, and neither of the
  two named errors); \<open>JSON.parse\<close> rejects the empty text on every host, which is the
  third hypothesis. \<open>getVinAnalysisReport\<close> and \<open>chatWithExpert\<close> trim first and
  return their fallback strings.
\<close>

theorem blank_reply:
  assumes "t \<noteq> []" and "list_all isWhiteSpace t" and "JSON_parse h [] = None"
  shows "(answers env (analyzeVehicleByVin_request vin) (Some t) \<longrightarrow>
            analyzeVehicleByVin env h vin = (Inl SyntaxError, [analyzeVehicleByVin_request vin]))
       \<and> (answers env (analyzeVehicleDetails_request base64Image brand) (Some t) \<longrightarrow>
            analyzeVehicleDetails env h base64Image brand =
              (Inl SyntaxError, [analyzeVehicleDetails_request base64Image brand]))
       \<and> (answers env (analyzeVehicleCritical_request base64Image (modeOrDefault mode_arg)) (Some t) \<longrightarrow>
            analyzeVehicleCritical env h base64Image mode_arg =
              (Inl SyntaxError, [analyzeVehicleCritical_request base64Image (modeOrDefault mode_arg)]))
       \<and> (answers env (estimateMarketValue_request vehicle) (Some t) \<longrightarrow>
            estimateMarketValue env h vehicle =
              (Inl SyntaxError, [estimateMarketValue_request vehicle]))
       \<and> SyntaxError \<noteq> Error (utf16 ''IA_EMPTY_RESPONSE'')
       \<and> SyntaxError \<noteq> Error (utf16 ''IA_ESTIMATION_FAILED'')
       \<and> (answers env (getVinAnalysisReport_request vin) (Some t) \<longrightarrow>
            getVinAnalysisReport env vin = (Inr reportFallback, [getVinAnalysisReport_request vin]))
       \<and> (answers env (chatWithExpert_request history question) (Some t) \<longrightarrow>
            chatWithExpert env history question =
              (Inr chatFallback, [chatWithExpert_request history question]))"
proof -
  have p: "parse h (trim t) = Inl SyntaxError"
    using assms by (simp add: trim_blank parse_def)
  show ?thesis
    using assms(1) p
    by (simp add: analyzeVehicleByVin_answered analyzeVehicleDetails_answered
        analyzeVehicleCritical_answered estimateMarketValue_answered
        getVinAnalysisReport_answered chatWithExpert_answered trimmedOr_blank [OF assms(2)])
qed

theorem blank_reply_witness:
  "analyzeVehicleCritical (sample_env (Some [0x20, 0x0A])) sample_host (utf16 ''AAAA'') None =
     (Inl SyntaxError, [analyzeVehicleCritical_request (utf16 ''AAAA'') (utf16 ''vin'')])
   \<and> estimateMarketValue (sample_env (Some [0x20, 0x0A])) sample_host sample_vehicle =
     (Inl SyntaxError, [estimateMarketValue_request sample_vehicle])
   \<and> chatWithExpert (sample_env (Some [0x20, 0x0A])) [] (utf16 ''Bonjour'') =
     (Inr chatFallback, [chatWithExpert_request [] (utf16 ''Bonjour'')])"
proof -
  have w: "list_all isWhiteSpace [0x20, 0x0A]"
    by (simp add: isWhiteSpace_def)
  show ?thesis
    using blank_reply [where t = "[0x20, 0x0A]" and h = sample_host
        and env = "sample_env (Some [0x20, 0x0A])" and base64Image = "utf16 ''AAAA''"
        and mode_arg = None and vehicle = sample_vehicle and history = "[]"
        and question = "utf16 ''Bonjour''", OF _ w empty_text_parse]
    by (simp add: sample_env_answers modeOrDefault_def)
qed

section \<open>The reply passed through\<close>

text \<open>
  C7. \<open>analyzeVehicleByVin\<close> and \<open>analyzeVehicleDetails\<close> return the value that the
  reply's text parses to, whatever it is: no property is added, dropped, renamed or
  converted, and nothing is checked against the schema. The text of a serialised object
  is not empty and trimming leaves it as it is (\<open>trim_object_text\<close>), so the value
  returned for it is the object itself.
\<close>

theorem parsed_reply_passes_through:
  assumes "t \<noteq> []" and "JSON_parse h (trim t) = Some v"
  shows "(answers env (analyzeVehicleByVin_request vin) (Some t) \<longrightarrow>
            analyzeVehicleByVin env h vin = (Inr v, [analyzeVehicleByVin_request vin]))
       \<and> (answers env (analyzeVehicleDetails_request base64Image brand) (Some t) \<longrightarrow>
            analyzeVehicleDetails env h base64Image brand =
              (Inr v, [analyzeVehicleDetails_request base64Image brand]))"
  using assms
  by (simp add: analyzeVehicleByVin_answered analyzeVehicleDetails_answered parse_def)

theorem parsed_reply_passes_through_witness:
  "analyzeVehicleByVin (sample_env (Some sample_reply)) sample_host (utf16 ''WVWZZZ1KZAW000001'') =
     (Inr (JObject [(utf16 ''vin'', JString (utf16 ''wvw-zzz 1k'')), (utf16 ''extra'', JBool True)]),
      [analyzeVehicleByVin_request (utf16 ''WVWZZZ1KZAW000001'')])
   \<and> analyzeVehicleDetails (sample_env (Some sample_reply)) sample_host (utf16 ''AAAA'') (utf16 ''AUDI'') =
     (Inr (JObject [(utf16 ''vin'', JString (utf16 ''wvw-zzz 1k'')), (utf16 ''extra'', JBool True)]),
      [analyzeVehicleDetails_request (utf16 ''AAAA'') (utf16 ''AUDI'')])"
  using parsed_reply_passes_through [where t = sample_reply and h = sample_host
      and v = sample_value and env = "sample_env (Some sample_reply)"
      and vin = "utf16 ''WVWZZZ1KZAW000001''" and base64Image = "utf16 ''AAAA''"
      and brand = "utf16 ''AUDI''"]
  by (simp add: sample_env_answers sample_value_def)

section \<open>The post-processing of analyzeVehicleCritical\<close>

lemma upperASCII_alnum: "isAlnum c \<Longrightarrow> isUpperAlnum (upperASCII c)"
  unfolding isAlnum_def isUpperAlnum_def upperASCII_def by unat_arith

lemma alnum_ascii: "isAlnum c \<Longrightarrow> c < 0x80"
  unfolding isAlnum_def by unat_arith

lemma upperASCII_fixed: "isUpperAlnum c \<Longrightarrow> upperASCII c = c"
  unfolding isUpperAlnum_def upperASCII_def by unat_arith

lemma upperAlnum_alnum: "isUpperAlnum c \<Longrightarrow> isAlnum c"
  unfolding isUpperAlnum_def isAlnum_def by blast

lemma toUpperCase_alnum:
  assumes "list_all isAlnum s"
  shows "toUpperCase h s = map upperASCII s"
proof -
  have "list_all (\<lambda>c. c < 0x80) s"
    using assms by (induction s) (auto simp: alnum_ascii)
  then show ?thesis by (simp add: toUpperCase_def)
qed

lemma vin_normalized: "list_all isUpperAlnum (toUpperCase h (replace_nonAlnum s))"
proof -
  have kept: "list_all isAlnum (replace_nonAlnum s)"
    by (simp add: replace_nonAlnum_def list_all_iff)
  then have "list_all isUpperAlnum (map upperASCII (replace_nonAlnum s))"
    by (simp add: list_all_iff upperASCII_alnum)
  then show ?thesis using kept by (simp add: toUpperCase_alnum)
qed

lemma vin_unchanged:
  assumes "list_all isUpperAlnum s"
  shows "toUpperCase h (replace_nonAlnum s) = s"
proof -
  have kept: "replace_nonAlnum s = s"
    using assms by (induction s) (auto simp: replace_nonAlnum_def upperAlnum_alnum)
  have "list_all isAlnum s"
    using assms by (induction s) (auto simp: upperAlnum_alnum)
  then have "toUpperCase h s = map upperASCII s" by (rule toUpperCase_alnum)
  also have "\<dots> = s"
    using assms by (induction s) (auto simp: upperASCII_fixed)
  finally show ?thesis by (simp add: kept)
qed

lemma toUpperCase_Inconnu: "toUpperCase h (utf16 ''Inconnu'') = utf16 ''INCONNU''"
  by (simp add: toUpperCase_def upperASCII_def utf16_def)

lemma names_distinct:
  "distinct [utf16 ''vin'', utf16 ''brand'', utf16 ''model'', utf16 ''deductionReasoning'',
     utf16 ''yearOfManufacture'', utf16 ''licensePlate'', utf16 ''registrationYear'']"
  by (simp add: utf16_def)

lemma postProcess_returns:
  assumes "postProcess h rawData = Inr r"
  shows "\<exists>vin brand model deductionReasoning yearOfManufacture licensePlate registrationYear.
     stringOr h rawData (utf16 ''vin'') [] = Inr vin
   \<and> stringOr h rawData (utf16 ''brand'') (utf16 ''Inconnu'') = Inr brand
   \<and> stringOr h rawData (utf16 ''model'') (utf16 ''ANALYSE...'') = Inr model
   \<and> getProp rawData (utf16 ''deductionReasoning'') = Inr deductionReasoning
   \<and> stringOr h rawData (utf16 ''yearOfManufacture'') (utf16 ''N/A'') = Inr yearOfManufacture
   \<and> stringOr h rawData (utf16 ''licensePlate'') [] = Inr licensePlate
   \<and> stringOr h rawData (utf16 ''registrationYear'') [] = Inr registrationYear
   \<and> r = JObject
        [(utf16 ''vin'', JString (toUpperCase h (replace_nonAlnum vin))),
         (utf16 ''brand'', JString (toUpperCase h brand)),
         (utf16 ''model'', JString (toUpperCase h model)),
         (utf16 ''deductionReasoning'', orValue h deductionReasoning (JString [])),
         (utf16 ''yearOfManufacture'', JString yearOfManufacture),
         (utf16 ''licensePlate'', JString licensePlate),
         (utf16 ''registrationYear'', JString registrationYear)]"
  using assms unfolding postProcess_def
  by (auto split: sum.splits)

lemma stringOr_falsy:
  assumes "\<not> truthy h (property rawData name)" and "stringOr h rawData name fallback = Inr s"
  shows "s = fallback"
  using assms
  by (cases rawData)
     (auto simp: property_def stringOr_def getProp_def orValue_def split: option.splits)

lemma stringOr_missing:
  assumes "property rawData name = None" and "stringOr h rawData name fallback = Inr s"
  shows "s = fallback"
  using assms stringOr_falsy [of h rawData name fallback s] by simp

lemma stringOr_present:
  assumes "property rawData name = Some v" and "truthy h (Some v)"
    and "stringOr h rawData name fallback = Inr s"
  shows "String h v = Inr s"
  using assms
  by (cases rawData) (auto simp: property_def stringOr_def getProp_def orValue_def)

lemma stringOr_strings:
  assumes "stringValued kvs"
  shows "\<exists>s. stringOr h (JObject kvs) name fallback = Inr s"
proof (cases "map_of kvs name")
  case None
  then show ?thesis by (simp add: stringOr_def getProp_def orValue_def)
next
  case (Some v)
  then have "(name, v) \<in> set kvs" by (rule map_of_SomeD)
  with assms obtain s where "v = JString s"
    by (auto simp: stringValued_def list_all_iff isString_def split: json.splits)
  with Some show ?thesis by (simp add: stringOr_def getProp_def orValue_def)
qed

lemma postProcess_strings:
  assumes "stringValued kvs"
  shows "\<exists>r. postProcess h (JObject kvs) = Inr r"
proof -
  obtain vin where 1: "stringOr h (JObject kvs) (utf16 ''vin'') [] = Inr vin"
    using stringOr_strings [OF assms] by blast
  obtain brand where 2: "stringOr h (JObject kvs) (utf16 ''brand'') (utf16 ''Inconnu'') = Inr brand"
    using stringOr_strings [OF assms] by blast
  obtain model where 3: "stringOr h (JObject kvs) (utf16 ''model'') (utf16 ''ANALYSE...'') = Inr model"
    using stringOr_strings [OF assms] by blast
  obtain y where 4: "stringOr h (JObject kvs) (utf16 ''yearOfManufacture'') (utf16 ''N/A'') = Inr y"
    using stringOr_strings [OF assms] by blast
  obtain l where 5: "stringOr h (JObject kvs) (utf16 ''licensePlate'') [] = Inr l"
    using stringOr_strings [OF assms] by blast
  obtain ry where 6: "stringOr h (JObject kvs) (utf16 ''registrationYear'') [] = Inr ry"
    using stringOr_strings [OF assms] by blast
  show ?thesis
    by (simp add: postProcess_def 1 2 3 4 5 6 getProp_def)
qed

subsection \<open>The VIN\<close>

text \<open>
  C2. Whatever the image, the mode and the reply, the \<open>vin\<close> of a record that
  \<open>analyzeVehicleCritical\<close> returns is a string of code units of \<open>[A-Z0-9]\<close>. Its
  length is not constrained: a VIN of the reply that already is such a string is
  returned as it is, however long or short.
\<close>

theorem vin_uppercase_alphanumeric:
  "(analyzeVehicleCritical env h base64Image mode_arg = (Inr r, reqs) \<longrightarrow>
      (\<exists>vin. property r (utf16 ''vin'') = Some (JString vin) \<and> list_all isUpperAlnum vin))
   \<and> (list_all isUpperAlnum s \<longrightarrow>
        postProcess h (JObject [(utf16 ''vin'', JString s)]) = Inr r' \<longrightarrow>
        property r' (utf16 ''vin'') = Some (JString s))"
proof (intro conjI impI)
  assume "analyzeVehicleCritical env h base64Image mode_arg = (Inr r, reqs)"
  then obtain rawData where "postProcess h rawData = Inr r"
    using analyzeVehicleCritical_returns by blast
  then obtain v where "property r (utf16 ''vin'') = Some (JString (toUpperCase h (replace_nonAlnum v)))"
    using postProcess_returns [of h rawData r] by (auto simp: property_def)
  then show "\<exists>vin. property r (utf16 ''vin'') = Some (JString vin) \<and> list_all isUpperAlnum vin"
    using vin_normalized by blast
next
  assume s: "list_all isUpperAlnum s"
    and r: "postProcess h (JObject [(utf16 ''vin'', JString s)]) = Inr r'"
  obtain v where v: "stringOr h (JObject [(utf16 ''vin'', JString s)]) (utf16 ''vin'') [] = Inr v"
    and p: "property r' (utf16 ''vin'') = Some (JString (toUpperCase h (replace_nonAlnum v)))"
    using postProcess_returns [OF r] by (auto simp: property_def)
  have "v = s"
    using v by (cases "s = []") (auto simp: stringOr_def getProp_def orValue_def)
  then show "property r' (utf16 ''vin'') = Some (JString s)"
    using p s by (simp add: vin_unchanged)
qed

theorem vin_uppercase_alphanumeric_witness:
  "fst (analyzeVehicleCritical (sample_env (Some sample_reply)) sample_host (utf16 ''AAAA'') None) =
     Inr (JObject
       [(utf16 ''vin'', JString (utf16 ''WVWZZZ1K'')),
        (utf16 ''brand'', JString (utf16 ''INCONNU'')),
        (utf16 ''model'', JString (utf16 ''ANALYSE...'')),
        (utf16 ''deductionReasoning'', JString []),
        (utf16 ''yearOfManufacture'', JString (utf16 ''N/A'')),
        (utf16 ''licensePlate'', JString []),
        (utf16 ''registrationYear'', JString [])])
   \<and> list_all isUpperAlnum (utf16 ''WVWZZZ1K'') \<and> length (utf16 ''WVWZZZ1K'') = 8
   \<and> (\<exists>r'. postProcess sample_host (JObject [(utf16 ''vin'', JString (utf16 ''WVW''))]) = Inr r'
          \<and> property r' (utf16 ''vin'') = Some (JString (utf16 ''WVW'')))"
proof -
  let ?call = "analyzeVehicleCritical (sample_env (Some sample_reply)) sample_host (utf16 ''AAAA'') None"
  obtain r where r: "postProcess sample_host sample_value = Inr r"
    by (simp add: postProcess_sample)
  have run: "fst ?call = Inr r"
    by (simp add: analyzeVehicleCritical_sample r)
  then have call: "?call = (Inr r, snd ?call)"
    by (simp add: prod_eq_iff)
  have short: "list_all isUpperAlnum (utf16 ''WVW'')"
    by (simp add: isUpperAlnum_def utf16_def)
  obtain r' where r': "postProcess sample_host (JObject [(utf16 ''vin'', JString (utf16 ''WVW''))]) = Inr r'"
    using postProcess_strings [of "[(utf16 ''vin'', JString (utf16 ''WVW''))]" sample_host]
    by (auto simp: stringValued_def isString_def)
  note both = vin_uppercase_alphanumeric [of "sample_env (Some sample_reply)" sample_host
      "utf16 ''AAAA''" None r "snd ?call" "utf16 ''WVW''" r']
  from both call
  have "\<exists>vin. property r (utf16 ''vin'') = Some (JString vin) \<and> list_all isUpperAlnum vin"
    by blast
  then have upper: "list_all isUpperAlnum (utf16 ''WVWZZZ1K'')"
    using r by (auto simp: postProcess_sample property_def)
  from both short r'
  have "property r' (utf16 ''vin'') = Some (JString (utf16 ''WVW''))"
    by blast
  with r' have kept: "\<exists>r'. postProcess sample_host (JObject [(utf16 ''vin'', JString (utf16 ''WVW''))]) = Inr r'
          \<and> property r' (utf16 ''vin'') = Some (JString (utf16 ''WVW''))"
    by blast
  have "length (utf16 ''WVWZZZ1K'') = 8"
    by (simp add: utf16_def)
  then show ?thesis
    using upper kept by (simp add: analyzeVehicleCritical_sample postProcess_sample)
qed

subsection \<open>The returned record\<close>

text \<open>
  C10. A record that \<open>analyzeVehicleCritical\<close> returns is never a bare partial: it has
  the seven properties \<open>vin\<close>, \<open>brand\<close>, \<open>model\<close>, \<open>deductionReasoning\<close>,
  \<open>yearOfManufacture\<close>, \<open>licensePlate\<close> and \<open>registrationYear\<close>, whichever the oracle
  supplied, and all but \<open>deductionReasoning\<close> are strings. It does return one whenever
  the reply parses to an object whose properties are strings.
\<close>

theorem critical_record_complete:
  "(analyzeVehicleCritical env h base64Image mode_arg = (Inr r, reqs) \<longrightarrow>
     (\<exists>vin brand model deductionReasoning yearOfManufacture licensePlate registrationYear.
       r = JObject
         [(utf16 ''vin'', JString vin),
          (utf16 ''brand'', JString brand),
          (utf16 ''model'', JString model),
          (utf16 ''deductionReasoning'', deductionReasoning),
          (utf16 ''yearOfManufacture'', JString yearOfManufacture),
          (utf16 ''licensePlate'', JString licensePlate),
          (utf16 ''registrationYear'', JString registrationYear)]))
   \<and> (answers env (analyzeVehicleCritical_request base64Image (modeOrDefault mode_arg)) (Some t) \<longrightarrow>
        t \<noteq> [] \<longrightarrow> JSON_parse h (trim t) = Some (JObject kvs) \<longrightarrow> stringValued kvs \<longrightarrow>
        (\<exists>r'. fst (analyzeVehicleCritical env h base64Image mode_arg) = Inr r'))"
proof (intro conjI impI)
  assume "analyzeVehicleCritical env h base64Image mode_arg = (Inr r, reqs)"
  then obtain rawData where "postProcess h rawData = Inr r"
    using analyzeVehicleCritical_returns by blast
  from postProcess_returns [OF this]
  show "\<exists>vin brand model deductionReasoning yearOfManufacture licensePlate registrationYear.
       r = JObject
         [(utf16 ''vin'', JString vin),
          (utf16 ''brand'', JString brand),
          (utf16 ''model'', JString model),
          (utf16 ''deductionReasoning'', deductionReasoning),
          (utf16 ''yearOfManufacture'', JString yearOfManufacture),
          (utf16 ''licensePlate'', JString licensePlate),
          (utf16 ''registrationYear'', JString registrationYear)]"
    by blast
next
  assume a: "answers env (analyzeVehicleCritical_request base64Image (modeOrDefault mode_arg)) (Some t)"
    and "t \<noteq> []" and "JSON_parse h (trim t) = Some (JObject kvs)" and "stringValued kvs"
  then show "\<exists>r'. fst (analyzeVehicleCritical env h base64Image mode_arg) = Inr r'"
    by (simp add: analyzeVehicleCritical_answered [OF a] parse_def postProcess_strings)
qed

theorem critical_record_complete_witness:
  "\<exists>vin brand model deductionReasoning yearOfManufacture licensePlate registrationYear.
     fst (analyzeVehicleCritical (sample_env (Some (utf16 ''{}''))) sample_host (utf16 ''AAAA'') None) =
     Inr (JObject
       [(utf16 ''vin'', JString vin),
        (utf16 ''brand'', JString brand),
        (utf16 ''model'', JString model),
        (utf16 ''deductionReasoning'', deductionReasoning),
        (utf16 ''yearOfManufacture'', JString yearOfManufacture),
        (utf16 ''licensePlate'', JString licensePlate),
        (utf16 ''registrationYear'', JString registrationYear)])"
proof -
  let ?env = "sample_env (Some (utf16 ''{}''))"
  let ?call = "analyzeVehicleCritical ?env sample_host (utf16 ''AAAA'') None"
  note both = critical_record_complete [where env = ?env and h = sample_host
      and base64Image = "utf16 ''AAAA''" and mode_arg = None and t = "utf16 ''{}''"
      and kvs = "[]"]
  have "stringValued ([] :: (jsstring \<times> unit json) list)"
    by (simp add: stringValued_def)
  with both [of "JObject []" "[]"] sample_env_answers [of "Some (utf16 ''{}'')"]
  have "\<exists>r'. fst ?call = Inr r'"
    by simp
  then obtain r where r: "fst ?call = Inr r" ..
  then have "?call = (Inr r, snd ?call)"
    by (simp add: prod_eq_iff)
  with both [of r "snd ?call"] show ?thesis
    unfolding r by blast
qed

subsection \<open>The fallbacks of the year and plate fields\<close>

text \<open>
  C4, as amended. In the record that \<open>analyzeVehicleCritical\<close> returns,
  \<open>yearOfManufacture\<close>, \<open>licensePlate\<close> and \<open>registrationYear\<close> are each coerced
  to a string: a truthy value \<open>v\<close> that the parsed reply supplies for the field is
  returned as \<open>String(v)\<close>. When the parsed reply has no \<open>licensePlate\<close> (or a falsy
  one) the returned one is the empty string, and so for \<open>registrationYear\<close>; when it
  has no \<open>yearOfManufacture\<close> (or a falsy one) the returned one is \<open>"N/A"\<close>.
\<close>

theorem year_plate_fallbacks:
  assumes "answers env (analyzeVehicleCritical_request base64Image (modeOrDefault mode_arg)) (Some t)"
    and "t \<noteq> []"
    and "JSON_parse h (trim t) = Some rawData"
    and "fst (analyzeVehicleCritical env h base64Image mode_arg) = Inr r"
  shows "(\<exists>yearOfManufacture licensePlate registrationYear.
            property r (utf16 ''yearOfManufacture'') = Some (JString yearOfManufacture)
          \<and> property r (utf16 ''licensePlate'') = Some (JString licensePlate)
          \<and> property r (utf16 ''registrationYear'') = Some (JString registrationYear))
       \<and> (property rawData (utf16 ''yearOfManufacture'') = Some v \<longrightarrow> truthy h (Some v) \<longrightarrow>
            (\<exists>s. String h v = Inr s \<and> property r (utf16 ''yearOfManufacture'') = Some (JString s)))
       \<and> (property rawData (utf16 ''licensePlate'') = Some v \<longrightarrow> truthy h (Some v) \<longrightarrow>
            (\<exists>s. String h v = Inr s \<and> property r (utf16 ''licensePlate'') = Some (JString s)))
       \<and> (property rawData (utf16 ''registrationYear'') = Some v \<longrightarrow> truthy h (Some v) \<longrightarrow>
            (\<exists>s. String h v = Inr s \<and> property r (utf16 ''registrationYear'') = Some (JString s)))
       \<and> (property rawData (utf16 ''yearOfManufacture'') = None \<longrightarrow>
            property r (utf16 ''yearOfManufacture'') = Some (JString (utf16 ''N/A'')))
       \<and> (property rawData (utf16 ''licensePlate'') = None \<longrightarrow>
            property r (utf16 ''licensePlate'') = Some (JString []))
       \<and> (property rawData (utf16 ''registrationYear'') = None \<longrightarrow>
            property r (utf16 ''registrationYear'') = Some (JString []))
       \<and> (\<not> truthy h (property rawData (utf16 ''yearOfManufacture'')) \<longrightarrow>
            property r (utf16 ''yearOfManufacture'') = Some (JString (utf16 ''N/A'')))
       \<and> (\<not> truthy h (property rawData (utf16 ''licensePlate'')) \<longrightarrow>
            property r (utf16 ''licensePlate'') = Some (JString []))
       \<and> (\<not> truthy h (property rawData (utf16 ''registrationYear'')) \<longrightarrow>
            property r (utf16 ''registrationYear'') = Some (JString []))"
proof -
  have "postProcess h rawData = Inr r"
    using assms by (simp add: analyzeVehicleCritical_answered [OF assms(1)] parse_def)
  from postProcess_returns [OF this]
  obtain y l ry where y: "stringOr h rawData (utf16 ''yearOfManufacture'') (utf16 ''N/A'') = Inr y"
    and l: "stringOr h rawData (utf16 ''licensePlate'') [] = Inr l"
    and ry: "stringOr h rawData (utf16 ''registrationYear'') [] = Inr ry"
    and py: "property r (utf16 ''yearOfManufacture'') = Some (JString y)"
    and pl: "property r (utf16 ''licensePlate'') = Some (JString l)"
    and pry: "property r (utf16 ''registrationYear'') = Some (JString ry)"
    using names_distinct by (auto simp: property_def)
  have strings: "\<exists>yearOfManufacture licensePlate registrationYear.
            property r (utf16 ''yearOfManufacture'') = Some (JString yearOfManufacture)
          \<and> property r (utf16 ''licensePlate'') = Some (JString licensePlate)
          \<and> property r (utf16 ''registrationYear'') = Some (JString registrationYear)"
    using py pl pry by blast
  have present: "property rawData (utf16 ''yearOfManufacture'') = Some v \<longrightarrow> truthy h (Some v) \<longrightarrow>
            (\<exists>s. String h v = Inr s \<and> property r (utf16 ''yearOfManufacture'') = Some (JString s))"
    "property rawData (utf16 ''licensePlate'') = Some v \<longrightarrow> truthy h (Some v) \<longrightarrow>
            (\<exists>s. String h v = Inr s \<and> property r (utf16 ''licensePlate'') = Some (JString s))"
    "property rawData (utf16 ''registrationYear'') = Some v \<longrightarrow> truthy h (Some v) \<longrightarrow>
            (\<exists>s. String h v = Inr s \<and> property r (utf16 ''registrationYear'') = Some (JString s))"
    using py pl pry stringOr_present [OF _ _ y] stringOr_present [OF _ _ l]
      stringOr_present [OF _ _ ry]
    by blast+
  have falsy: "\<not> truthy h (property rawData (utf16 ''yearOfManufacture'')) \<longrightarrow>
            property r (utf16 ''yearOfManufacture'') = Some (JString (utf16 ''N/A''))"
    "\<not> truthy h (property rawData (utf16 ''licensePlate'')) \<longrightarrow>
            property r (utf16 ''licensePlate'') = Some (JString [])"
    "\<not> truthy h (property rawData (utf16 ''registrationYear'')) \<longrightarrow>
            property r (utf16 ''registrationYear'') = Some (JString [])"
    using py pl pry stringOr_falsy [OF _ y] stringOr_falsy [OF _ l] stringOr_falsy [OF _ ry]
    by blast+
  have missing: "property rawData (utf16 ''yearOfManufacture'') = None \<longrightarrow>
            property r (utf16 ''yearOfManufacture'') = Some (JString (utf16 ''N/A''))"
    "property rawData (utf16 ''licensePlate'') = None \<longrightarrow>
            property r (utf16 ''licensePlate'') = Some (JString [])"
    "property rawData (utf16 ''registrationYear'') = None \<longrightarrow>
            property r (utf16 ''registrationYear'') = Some (JString [])"
    using falsy by simp_all
  show ?thesis
    using strings present missing falsy by blast
qed

theorem year_plate_fallbacks_witness:
  "(\<exists>r. fst (analyzeVehicleCritical (sample_env (Some plate_reply)) plate_host (utf16 ''AAAA'') None) = Inr r
     \<and> property r (utf16 ''yearOfManufacture'') = Some (JString (utf16 ''true''))
     \<and> property r (utf16 ''licensePlate'') = Some (JString (utf16 ''12345-A-6''))
     \<and> property r (utf16 ''registrationYear'') = Some (JString []))
   \<and> (\<exists>r. fst (analyzeVehicleCritical (sample_env (Some (utf16 ''{}''))) sample_host (utf16 ''AAAA'') None) = Inr r
     \<and> property r (utf16 ''yearOfManufacture'') = Some (JString (utf16 ''N/A''))
     \<and> property r (utf16 ''licensePlate'') = Some (JString [])
     \<and> property r (utf16 ''registrationYear'') = Some (JString []))"
proof
  let ?call = "analyzeVehicleCritical (sample_env (Some plate_reply)) plate_host (utf16 ''AAAA'') None"
  obtain r where r: "fst ?call = Inr r"
    by (simp add: analyzeVehicleCritical_plate postProcess_plate)
  have year: "property plate_value (utf16 ''yearOfManufacture'') = Some (JBool True)"
    and plate: "property plate_value (utf16 ''licensePlate'') = Some (JString (utf16 ''12345-A-6''))"
    and reg: "property plate_value (utf16 ''registrationYear'') = None"
    by (simp_all add: property_def plate_value_def utf16_def)
  have nonempty: "utf16 ''12345-A-6'' \<noteq> []"
    by (simp add: utf16_def)
  note at = year_plate_fallbacks [OF sample_env_answers _ _ r, of plate_value]
  have "property r (utf16 ''yearOfManufacture'') = Some (JString (utf16 ''true''))"
    using at [of "JBool True"] year by simp
  moreover have "property r (utf16 ''licensePlate'') = Some (JString (utf16 ''12345-A-6''))"
    using at [of "JString (utf16 ''12345-A-6'')"] plate nonempty by simp
  moreover have "property r (utf16 ''registrationYear'') = Some (JString [])"
    using at [of JNull] reg by simp
  ultimately show "\<exists>r. fst ?call = Inr r
     \<and> property r (utf16 ''yearOfManufacture'') = Some (JString (utf16 ''true''))
     \<and> property r (utf16 ''licensePlate'') = Some (JString (utf16 ''12345-A-6''))
     \<and> property r (utf16 ''registrationYear'') = Some (JString [])"
    using r by blast
next
  let ?call = "analyzeVehicleCritical (sample_env (Some (utf16 ''{}''))) sample_host (utf16 ''AAAA'') None"
  obtain r where r: "fst ?call = Inr r"
    by (simp add: analyzeVehicleCritical_empty_object postProcess_empty_object)
  have missing: "property (JObject [] :: unit json) name = None" for name
    by (simp add: property_def)
  from year_plate_fallbacks [OF sample_env_answers _ _ r, of "JObject []"] missing
  have "property r (utf16 ''yearOfManufacture'') = Some (JString (utf16 ''N/A''))
      \<and> property r (utf16 ''licensePlate'') = Some (JString [])
      \<and> property r (utf16 ''registrationYear'') = Some (JString [])"
    by simp
  with r show "\<exists>r. fst ?call = Inr r
     \<and> property r (utf16 ''yearOfManufacture'') = Some (JString (utf16 ''N/A''))
     \<and> property r (utf16 ''licensePlate'') = Some (JString [])
     \<and> property r (utf16 ''registrationYear'') = Some (JString [])"
    by blast
qed

text \<open>
  C4 as first stated gives the empty string to all three fields. The reply \<open>{}\<close> has no
  \<open>yearOfManufacture\<close>, and the returned one is \<open>"N/A"\<close>.
\<close>

theorem year_fallback_counterexample:
  "fst (analyzeVehicleCritical (sample_env (Some (utf16 ''{}''))) sample_host (utf16 ''AAAA'') None) =
     Inr (JObject
       [(utf16 ''vin'', JString []),
        (utf16 ''brand'', JString (utf16 ''INCONNU'')),
        (utf16 ''model'', JString (utf16 ''ANALYSE...'')),
        (utf16 ''deductionReasoning'', JString []),
        (utf16 ''yearOfManufacture'', JString (utf16 ''N/A'')),
        (utf16 ''licensePlate'', JString []),
        (utf16 ''registrationYear'', JString [])])
   \<and> property (JObject [] :: unit json) (utf16 ''yearOfManufacture'') = None
   \<and> utf16 ''N/A'' \<noteq> []"
  by (simp add: analyzeVehicleCritical_empty_object postProcess_empty_object property_def)
     (simp add: utf16_def)

subsection \<open>The brand sentinel\<close>

text \<open>
  C5, as amended. When the parsed reply has no \<open>brand\<close>, or an empty one, the brand of
  the record that \<open>analyzeVehicleCritical\<close> returns is \<open>"INCONNU"\<close>: the sentinel
  \<open>"Inconnu"\<close> goes through \<open>toUpperCase\<close> like every brand.
\<close>

theorem brand_sentinel_uppercased:
  assumes "answers env (analyzeVehicleCritical_request base64Image (modeOrDefault mode_arg)) (Some t)"
    and "t \<noteq> []"
    and "JSON_parse h (trim t) = Some rawData"
    and "fst (analyzeVehicleCritical env h base64Image mode_arg) = Inr r"
    and "property rawData (utf16 ''brand'') = None
       \<or> property rawData (utf16 ''brand'') = Some (JString [])"
  shows "property r (utf16 ''brand'') = Some (JString (utf16 ''INCONNU''))"
proof -
  have "postProcess h rawData = Inr r"
    using assms by (simp add: analyzeVehicleCritical_answered [OF assms(1)] parse_def)
  from postProcess_returns [OF this]
  obtain b where b: "stringOr h rawData (utf16 ''brand'') (utf16 ''Inconnu'') = Inr b"
    and p: "property r (utf16 ''brand'') = Some (JString (toUpperCase h b))"
    using names_distinct by (auto simp: property_def)
  have "\<not> truthy h (property rawData (utf16 ''brand''))"
    using assms(5) by auto
  from stringOr_falsy [OF this b] show ?thesis
    using p by (simp add: toUpperCase_Inconnu)
qed

theorem brand_sentinel_uppercased_witness:
  "\<exists>r. fst (analyzeVehicleCritical (sample_env (Some sample_reply)) sample_host (utf16 ''AAAA'') None) = Inr r
     \<and> property sample_value (utf16 ''brand'') = None
     \<and> property r (utf16 ''brand'') = Some (JString (utf16 ''INCONNU''))"
proof -
  let ?call = "analyzeVehicleCritical (sample_env (Some sample_reply)) sample_host (utf16 ''AAAA'') None"
  obtain r where r: "fst ?call = Inr r"
    by (simp add: analyzeVehicleCritical_sample postProcess_sample)
  have missing: "property sample_value (utf16 ''brand'') = None"
    by (simp add: property_def sample_value_def utf16_def)
  have "property r (utf16 ''brand'') = Some (JString (utf16 ''INCONNU''))"
    using brand_sentinel_uppercased [OF sample_env_answers _ _ r, of sample_value] missing
    by simp
  then show ?thesis using r missing by blast
qed

text \<open>
  C5 as first stated gives the brand \<open>"Inconnu"\<close>. The reply of the sample has no
  \<open>brand\<close>, and the returned one is \<open>"INCONNU"\<close>.
\<close>

theorem brand_sentinel_counterexample:
  "fst (analyzeVehicleCritical (sample_env (Some sample_reply)) sample_host (utf16 ''AAAA'') None) =
     Inr (JObject
       [(utf16 ''vin'', JString (utf16 ''WVWZZZ1K'')),
        (utf16 ''brand'', JString (utf16 ''INCONNU'')),
        (utf16 ''model'', JString (utf16 ''ANALYSE...'')),
        (utf16 ''deductionReasoning'', JString []),
        (utf16 ''yearOfManufacture'', JString (utf16 ''N/A'')),
        (utf16 ''licensePlate'', JString []),
        (utf16 ''registrationYear'', JString [])])
   \<and> property sample_value (utf16 ''brand'') = None
   \<and> utf16 ''INCONNU'' \<noteq> utf16 ''Inconnu''"
  by (simp add: analyzeVehicleCritical_sample postProcess_sample)
     (simp add: property_def sample_value_def utf16_def)

section \<open>The decomposition table of the report\<close>

lemma substring_ordered:
  "a \<le> b \<Longrightarrow> substring s a b = take (b - a) (drop a s)"
  by (auto simp: substring_def Let_def min_def max_def)

lemma joinLines_append:
  "xs \<noteq> [] \<Longrightarrow> ys \<noteq> [] \<Longrightarrow> joinLines (xs @ ys) = joinLines xs @ [0x0A] @ joinLines ys"
proof (induction xs rule: joinLines.induct)
  case 1
  then show ?case by simp
next
  case (2 l)
  then show ?case by (cases ys) simp_all
next
  case (3 l l' ls)
  then show ?case by simp
qed

lemma joinLines_rows:
  assumes "before \<noteq> []" and "after \<noteq> []"
  shows "joinLines (before @ [r1, r2, r3] @ after) =
    (joinLines before @ [0x0A]) @ r1 @ [0x0A] @ r2 @ [0x0A] @ r3 @ ([0x0A] @ joinLines after)"
proof -
  have "joinLines ([r1, r2, r3] @ after) = r1 @ [0x0A] @ r2 @ [0x0A] @ r3 @ [0x0A] @ joinLines after"
    using assms(2) by (cases after) simp_all
  then show ?thesis
    using joinLines_append [OF assms(1), of "[r1, r2, r3] @ after"] by simp
qed

lemma promptLines_split:
  "getVinAnalysisReport_promptLines v =
     take 19 (getVinAnalysisReport_promptLines v) @
     [utf16 ''       | **WMI** | '' @ take 3 v @ utf16 '' | Constructeur / Pays |'',
      utf16 ''       | **VDS** | '' @ take 6 (drop 3 v) @ utf16 '' | Caract'' @ [0xE9] @
        utf16 ''ristiques (Ch'' @ [0xE2] @ utf16 ''ssis, Moteur) |'',
      utf16 ''       | **VIS** | '' @ take 8 (drop 9 v) @ utf16 '' | Identification Unique / Usine |''] @
     drop 22 (getVinAnalysisReport_promptLines v)"
  by (simp add: getVinAnalysisReport_promptLines_def substring_ordered)

text \<open>
  C3. For every VIN \<open>v\<close>, valid or not and of any length, the instruction text of the
  request of \<open>getVinAnalysisReport\<close> holds three consecutive table rows: the WMI row
  with the code units \<open>[0,3)\<close> of \<open>v\<close>, the VDS row with the code units \<open>[3,9)\<close> and the
  VIS row with the code units \<open>[9,17)\<close>, each verbatim. For \<open>WVWZZZ1KZAW000001\<close> the
  VIS entry is \<open>AW000001\<close>.
\<close>

theorem report_table_rows:
  "(\<exists>pre post. instructionOf (getVinAnalysisReport_request v) =
      pre @ utf16 ''       | **WMI** | '' @ take 3 v @ utf16 '' | Constructeur / Pays |'' @ [0x0A] @
      utf16 ''       | **VDS** | '' @ take 6 (drop 3 v) @ utf16 '' | Caract'' @ [0xE9] @
        utf16 ''ristiques (Ch'' @ [0xE2] @ utf16 ''ssis, Moteur) |'' @ [0x0A] @
      utf16 ''       | **VIS** | '' @ take 8 (drop 9 v) @ utf16 '' | Identification Unique / Usine |'' @
      post)
   \<and> substring (utf16 ''WVWZZZ1KZAW000001'') 9 17 = utf16 ''AW000001''"
proof
  have b: "take 19 (getVinAnalysisReport_promptLines v) \<noteq> []"
    and a: "drop 22 (getVinAnalysisReport_promptLines v) \<noteq> []"
    by (simp_all add: getVinAnalysisReport_promptLines_def)
  have "instructionOf (getVinAnalysisReport_request v) =
      joinLines (getVinAnalysisReport_promptLines v)"
    by (simp add: getVinAnalysisReport_request_def getVinAnalysisReport_systemPrompt_def)
  also note promptLines_split [of v]
  also note joinLines_rows [OF b a]
  finally show "\<exists>pre post. instructionOf (getVinAnalysisReport_request v) =
      pre @ utf16 ''       | **WMI** | '' @ take 3 v @ utf16 '' | Constructeur / Pays |'' @ [0x0A] @
      utf16 ''       | **VDS** | '' @ take 6 (drop 3 v) @ utf16 '' | Caract'' @ [0xE9] @
        utf16 ''ristiques (Ch'' @ [0xE2] @ utf16 ''ssis, Moteur) |'' @ [0x0A] @
      utf16 ''       | **VIS** | '' @ take 8 (drop 9 v) @ utf16 '' | Identification Unique / Usine |'' @
      post"
    by (metis append.assoc)
next
  show "substring (utf16 ''WVWZZZ1KZAW000001'') 9 17 = utf16 ''AW000001''"
    by (simp add: substring_ordered utf16_def)
qed

theorem report_table_rows_witness:
  "\<exists>pre post. instructionOf (getVinAnalysisReport_request (utf16 ''WVWZZZ1KZAW000001'')) =
      pre @ utf16 ''       | **WMI** | WVW | Constructeur / Pays |'' @ [0x0A] @
      utf16 ''       | **VDS** | ZZZ1KZ | Caract'' @ [0xE9] @
        utf16 ''ristiques (Ch'' @ [0xE2] @ utf16 ''ssis, Moteur) |'' @ [0x0A] @
      utf16 ''       | **VIS** | AW000001 | Identification Unique / Usine |'' @
      post"
proof -
  have rows: "take 3 (utf16 ''WVWZZZ1KZAW000001'') = utf16 ''WVW''"
    "take 6 (drop 3 (utf16 ''WVWZZZ1KZAW000001'')) = utf16 ''ZZZ1KZ''"
    "take 8 (drop 9 (utf16 ''WVWZZZ1KZAW000001'')) = utf16 ''AW000001''"
    by (simp_all add: utf16_def)
  from report_table_rows [of "utf16 ''WVWZZZ1KZAW000001''"]
  obtain pre post where "instructionOf (getVinAnalysisReport_request (utf16 ''WVWZZZ1KZAW000001'')) =
      pre @ utf16 ''       | **WMI** | '' @ utf16 ''WVW'' @ utf16 '' | Constructeur / Pays |'' @ [0x0A] @
      utf16 ''       | **VDS** | '' @ utf16 ''ZZZ1KZ'' @ utf16 '' | Caract'' @ [0xE9] @
        utf16 ''ristiques (Ch'' @ [0xE2] @ utf16 ''ssis, Moteur) |'' @ [0x0A] @
      utf16 ''       | **VIS** | '' @ utf16 ''AW000001'' @ utf16 '' | Identification Unique / Usine |'' @
      post"
    unfolding rows by blast
  then show ?thesis
    by (simp add: utf16_def) blast
qed

section \<open>The image payload\<close>

lemma split_without: "sep \<notin> set s \<Longrightarrow> split sep s = [s]"
  by (induction s) auto

lemma split_first: "\<exists>ps. split sep s = takeWhile (\<lambda>c. c \<noteq> sep) s # ps"
  by (induction s) (auto split: list.splits)

lemma split_with:
  "sep \<in> set s \<Longrightarrow>
   split sep s = takeWhile (\<lambda>c. c \<noteq> sep) s # split sep (drop 1 (dropWhile (\<lambda>c. c \<noteq> sep) s))"
proof (induction s)
  case Nil
  then show ?case by simp
next
  case (Cons c cs)
  show ?case
  proof (cases "c = sep")
    case True
    then show ?thesis by simp
  next
    case False
    with Cons.prems have "sep \<in> set cs" by simp
    from Cons.IH [OF this] False show ?thesis by simp
  qed
qed

lemma index_split:
  "index (split 0x2C s) 1 = (if 0x2C \<in> set s then Some (secondSegment s) else None)"
proof (cases "0x2C \<in> set s")
  case True
  obtain ps where "split 0x2C (afterFirstComma s) = secondSegment s # ps"
    unfolding secondSegment_def using split_first by blast
  then show ?thesis
    using True split_with [OF True] by (simp add: index_def afterFirstComma_def)
next
  case False
  then show ?thesis by (simp add: split_without index_def)
qed

lemma imageData_eq:
  "imageData s = (if 0x2C \<in> set s \<and> secondSegment s \<noteq> [] then secondSegment s else s)"
  unfolding imageData_def index_split by (simp add: orElse_def)

lemma afterFirstComma_single:
  "count_list s 0x2C \<le> 1 \<Longrightarrow> 0x2C \<notin> set (afterFirstComma s)"
proof (induction s)
  case Nil
  then show ?case by (simp add: afterFirstComma_def)
next
  case (Cons c cs)
  then show ?case
    by (cases "c = 0x2C") (auto simp: afterFirstComma_def count_list_0_iff)
qed

text \<open>
  C8, as amended. \<open>analyzeVehicleCritical\<close> and \<open>analyzeVehicleDetails\<close> forward, as
  the data of the image, the portion of the input between its first comma and its
  second (or the end of the input when it has one comma only), when the input has a
  comma and that portion is not empty, and the input unchanged otherwise. Once the key
  is configured that request is the one sent, whatever the oracle answers. For an input
  with at most one comma this is the portion after the first comma, as first stated.
\<close>

theorem data_uri_prefix_stripped:
  "imageData base64Image =
     (if 0x2C \<in> set base64Image \<and> secondSegment base64Image \<noteq> [] then secondSegment base64Image
      else base64Image)
   \<and> forwardedData (analyzeVehicleCritical_request base64Image mode) = [imageData base64Image]
   \<and> forwardedData (analyzeVehicleDetails_request base64Image brand) = [imageData base64Image]
   \<and> (getAIClient env = Inr ai \<longrightarrow>
        snd (analyzeVehicleCritical env h base64Image mode_arg) =
          [analyzeVehicleCritical_request base64Image (modeOrDefault mode_arg)]
      \<and> snd (analyzeVehicleDetails env h base64Image brand) =
          [analyzeVehicleDetails_request base64Image brand])
   \<and> (count_list base64Image 0x2C \<le> 1 \<longrightarrow> imageData base64Image = claimed_imageData base64Image)"
proof (intro conjI impI)
  show "imageData base64Image =
     (if 0x2C \<in> set base64Image \<and> secondSegment base64Image \<noteq> [] then secondSegment base64Image
      else base64Image)"
    by (rule imageData_eq)
  show "forwardedData (analyzeVehicleCritical_request base64Image mode) = [imageData base64Image]"
    by (simp add: analyzeVehicleCritical_request_def)
  show "forwardedData (analyzeVehicleDetails_request base64Image brand) = [imageData base64Image]"
    by (simp add: analyzeVehicleDetails_request_def)
next
  assume "getAIClient env = Inr ai"
  then show "snd (analyzeVehicleCritical env h base64Image mode_arg) =
      [analyzeVehicleCritical_request base64Image (modeOrDefault mode_arg)]"
    by (rule analyzeVehicleCritical_sends)
next
  assume "getAIClient env = Inr ai"
  then show "snd (analyzeVehicleDetails env h base64Image brand) =
      [analyzeVehicleDetails_request base64Image brand]"
    by (rule analyzeVehicleDetails_sends)
next
  assume "count_list base64Image 0x2C \<le> 1"
  then have "0x2C \<notin> set (afterFirstComma base64Image)"
    by (rule afterFirstComma_single)
  then have "secondSegment base64Image = afterFirstComma base64Image"
    unfolding secondSegment_def takeWhile_eq_all_conv by blast
  then show "imageData base64Image = claimed_imageData base64Image"
    by (simp add: imageData_eq claimed_imageData_def)
qed

theorem data_uri_prefix_stripped_witness:
  "imageData (utf16 ''data:image/jpeg;base64,AAAA'') = utf16 ''AAAA''
   \<and> claimed_imageData (utf16 ''data:image/jpeg;base64,AAAA'') = utf16 ''AAAA''
   \<and> map forwardedData
       (snd (analyzeVehicleCritical (sample_env (Some sample_reply)) sample_host
          (utf16 ''data:image/jpeg;base64,AAAA'') None)) =
     [utf16 ''AAAA''] # []"
proof -
  let ?input = "utf16 ''data:image/jpeg;base64,AAAA''"
  note all = data_uri_prefix_stripped [where base64Image = ?input
      and env = "sample_env (Some sample_reply)" and h = sample_host and mode_arg = None
      and ai = "GoogleGenAI (utf16 ''sample-key'')"]
  have one: "count_list ?input 0x2C \<le> 1"
    by (simp add: utf16_def)
  have claimed: "claimed_imageData ?input = utf16 ''AAAA''"
    by (simp add: claimed_imageData_def afterFirstComma_def utf16_def)
  from all one have "imageData ?input = claimed_imageData ?input"
    by blast
  with claimed have data: "imageData ?input = utf16 ''AAAA''"
    by simp
  have "snd (analyzeVehicleCritical (sample_env (Some sample_reply)) sample_host ?input None) =
      [analyzeVehicleCritical_request ?input (modeOrDefault None)]"
    using all sample_env_client by blast
  moreover have "forwardedData (analyzeVehicleCritical_request ?input (modeOrDefault None)) =
      [imageData ?input]"
    using all by blast
  ultimately show ?thesis
    using claimed data by simp
qed

text \<open>
  C8 as first stated forwards everything after the first comma. An input with two
  commas shows the difference: of \<open>data:image/jpeg;base64,AAAA,BBBB\<close> both operations
  forward \<open>AAAA\<close>, not \<open>AAAA,BBBB\<close>.
\<close>

theorem data_uri_prefix_counterexample:
  "forwardedData (analyzeVehicleCritical_request (utf16 ''data:image/jpeg;base64,AAAA,BBBB'') (utf16 ''vin''))
     = [utf16 ''AAAA'']
   \<and> forwardedData (analyzeVehicleDetails_request (utf16 ''data:image/jpeg;base64,AAAA,BBBB'') (utf16 ''AUDI''))
     = [utf16 ''AAAA'']
   \<and> claimed_imageData (utf16 ''data:image/jpeg;base64,AAAA,BBBB'') = utf16 ''AAAA,BBBB''
   \<and> utf16 ''AAAA'' \<noteq> utf16 ''AAAA,BBBB''"
  by (simp add: analyzeVehicleCritical_request_def analyzeVehicleDetails_request_def imageData_eq
      claimed_imageData_def secondSegment_def afterFirstComma_def utf16_def)

end
